theory Spec2Isabelle
  imports Complex_Main
begin

section \<open>JavaScript values used by the retrieval and matching core\<close>

text \<open>
  A JavaScript string is modelled as a HOL \<open>string\<close>: one \<open>char\<close> per code unit, for code
  units below 256 (Basic Latin and Latin-1). The euro sign lies outside this alphabet.
  A JavaScript number is modelled as a \<open>real\<close>. In \<open>cosineSimilarity\<close> every operation is
  followed by the rounding to binary64, \<open>toDouble\<close>; elsewhere arithmetic is exact, and the
  rounding of \<open>Float32Array\<close> cells is not represented. \<open>NaN\<close> appears only where the
  code can create it, from an out-of-range read or from \<open>parseFloat\<close>, and is then written
  \<open>None\<close>.
\<close>

text \<open>
  A computation that can throw has a result of type \<open>error + 'a\<close>, with \<open>Inl\<close> for the
  thrown value. Every thrown value is an \<open>Error\<close> object, known here by its message.
\<close>

datatype error = Error string

fun message :: "error \<Rightarrow> string" where
  "message (Error m) = m"

definition code :: "char \<Rightarrow> nat" where
  "code c = of_char c"

definition toLowerChar :: "char \<Rightarrow> char" where
  "toLowerChar c = (let n = code c in
     if (65 \<le> n \<and> n \<le> 90) \<or> (192 \<le> n \<and> n \<le> 222 \<and> n \<noteq> 215)
     then char_of (n + 32) else c)"

definition toLowerCase :: "string \<Rightarrow> string" where
  "toLowerCase s = map toLowerChar s"

text \<open>The class \<open>\w\<close> of a regular expression: \<open>[A-Za-z0-9_]\<close>.\<close>

definition isWordChar :: "char \<Rightarrow> bool" where
  "isWordChar c = (let n = code c in
     (48 \<le> n \<and> n \<le> 57) \<or> (65 \<le> n \<and> n \<le> 90) \<or> n = 95 \<or> (97 \<le> n \<and> n \<le> 122))"

definition isDigit :: "char \<Rightarrow> bool" where
  "isDigit c = (let n = code c in 48 \<le> n \<and> n \<le> 57)"

text \<open>The class \<open>\s\<close>, which is also what \<open>trim\<close> strips: tab, LF, VT, FF, CR, space, NBSP.\<close>

definition isSpace :: "char \<Rightarrow> bool" where
  "isSpace c = (let n = code c in (9 \<le> n \<and> n \<le> 13) \<or> n = 32 \<or> n = 160)"

definition trim :: "string \<Rightarrow> string" where
  "trim s = rev (dropWhile isSpace (rev (dropWhile isSpace s)))"

text \<open>\<open>s.substring(a, b)\<close> for \<open>0 \<le> a \<le> b\<close>; \<open>b\<close> is clamped to the length.\<close>

definition substring :: "string \<Rightarrow> nat \<Rightarrow> nat \<Rightarrow> string" where
  "substring s a b = take (b - a) (drop a s)"

fun startsWith :: "string \<Rightarrow> string \<Rightarrow> bool" where
  "startsWith s [] = True"
| "startsWith [] (p # ps) = False"
| "startsWith (c # cs) (p # ps) = (c = p \<and> startsWith cs ps)"

text \<open>\<open>text.includes(pat)\<close>.\<close>

fun js_includes :: "string \<Rightarrow> string \<Rightarrow> bool" where
  "js_includes [] pat = (pat = [])"
| "js_includes (c # cs) pat = (startsWith (c # cs) pat \<or> js_includes cs pat)"

text \<open>
  \<open>s.split(/X+/)\<close> for a character class \<open>X\<close>: the fields between maximal runs of
  separator characters, an empty field before a leading run and after a trailing one.
\<close>

fun splitLoop :: "(char \<Rightarrow> bool) \<Rightarrow> string \<Rightarrow> bool \<Rightarrow> string \<Rightarrow> string list" where
  "splitLoop sep cur prevSep [] = [rev cur]"
| "splitLoop sep cur prevSep (c # cs) =
     (if sep c then (if prevSep then splitLoop sep cur True cs
                     else rev cur # splitLoop sep [] True cs)
      else splitLoop sep (c # cur) False cs)"

definition splitOn :: "(char \<Rightarrow> bool) \<Rightarrow> string \<Rightarrow> string list" where
  "splitOn sep s = splitLoop sep [] False s"

definition splitNonWord :: "string \<Rightarrow> string list" where
  "splitNonWord s = splitOn (\<lambda>c. \<not> isWordChar c) s"

definition splitSpace :: "string \<Rightarrow> string list" where
  "splitSpace s = splitOn isSpace s"

section \<open>Embedding engine\<close>

text \<open>
  \<open>hashWord\<close>: \<open>hash = ((hash << 5) - hash) + word.charCodeAt(i); hash = hash & hash\<close>,
  then \<open>Math.abs(hash)\<close>. The shift and the bitwise and convert to a signed 32-bit integer.
\<close>

definition toInt32 :: "int \<Rightarrow> int" where
  "toInt32 x = (x + 2147483648) mod 4294967296 - 2147483648"

fun hashLoop :: "int \<Rightarrow> string \<Rightarrow> int" where
  "hashLoop hash [] = hash"
| "hashLoop hash (c # cs) = hashLoop (toInt32 ((toInt32 (hash * 32) - hash) + int (code c))) cs"

definition hashWord :: "string \<Rightarrow> int" where
  "hashWord word = \<bar>hashLoop 0 word\<bar>"

text \<open>
  The tables \<open>categories\<close> and \<open>weights\<close> of \<open>generateFallbackEmbedding\<close>, in source order.
\<close>

definition embeddingCategories :: "(string \<times> string list) list" where
  "embeddingCategories =
    [(''footwear'', [''sneaker'', ''sneakers'', ''shoe'', ''shoes'', ''boot'', ''boots'', ''sandal'',
                     ''sandals'', ''trainer'', ''trainers'', ''runner'', ''running'']),
     (''clothing'', [''shirt'', ''dress'', ''pant'', ''pants'', ''jean'', ''jeans'', ''jacket'', ''coat'',
                     ''sweater'', ''hoodie'']),
     (''colors'', [''white'', ''black'', ''grey'', ''gray'', ''red'', ''blue'', ''green'', ''brown'',
                   ''beige'', ''navy'', ''yellow'', ''pink'', ''purple'', ''orange'']),
     (''brands'', [''nike'', ''adidas'', ''puma'', ''converse'', ''vans'', ''reebok'', ''jordan'', ''tommy'',
                   ''calvin'', ''ralph'', ''polo'']),
     (''materials'', [''leather'', ''cotton'', ''denim'', ''wool'', ''silk'', ''canvas'', ''suede'', ''mesh'',
                      ''polyester'']),
     (''styles'', [''casual'', ''formal'', ''sport'', ''athletic'', ''vintage'', ''classic'', ''modern'',
                   ''trendy'']),
     (''gender'', [''men'', ''women'', ''mens'', ''womens'', ''male'', ''female'', ''unisex''])]"

definition embeddingWeights :: "(string \<times> real) list" where
  "embeddingWeights = [(''footwear'', 4.0), (''clothing'', 4.0), (''colors'', 3.5), (''brands'', 2.5),
              (''materials'', 2.0), (''styles'', 1.5), (''gender'', 1.0)]"

text \<open>\<open>weights[category] || 1.0\<close>.\<close>

definition weightOf :: "string \<Rightarrow> real" where
  "weightOf category = (case map_of embeddingWeights category of
       None \<Rightarrow> 1.0
     | Some w \<Rightarrow> if w = 0 then 1.0 else w)"

text \<open>The inner \<open>keywords.forEach\<close>: one \<open>weight\<close> for every keyword the text includes.\<close>

definition categoryScore :: "string \<Rightarrow> real \<Rightarrow> string list \<Rightarrow> real" where
  "categoryScore cleanText weight keywords =
     fold (\<lambda>keyword score. if js_includes cleanText keyword then score + weight else score)
          keywords 0"

text \<open>
  \<open>for (let i = 0; i < 10 && index < embedding.length; i++)
       embedding[index++] = categoryScore * (1 - i * 0.1)\<close>.
  The state is the array and \<open>index\<close>.
\<close>

definition spreadScore :: "real \<Rightarrow> real list \<times> nat \<Rightarrow> real list \<times> nat" where
  "spreadScore score st =
     fold (\<lambda>i (embedding, index).
             if index < length embedding
             then (embedding[index := score * (1 - real i * 0.1)], index + 1)
             else (embedding, index))
          [0..<10] st"

definition scoreCategories :: "string \<Rightarrow> real list \<times> nat \<Rightarrow> real list \<times> nat" where
  "scoreCategories cleanText st =
     fold (\<lambda>(category, keywords) st'.
             spreadScore (categoryScore cleanText (weightOf category) keywords) st')
          embeddingCategories st"

text \<open>
  \<open>words.forEach(word => { if (index < embedding.length - 50) {
       const hash = this.hashWord(word) % 50; embedding[index + hash] += 0.5; } })\<close>.
\<close>

definition addWordFeatures :: "string list \<Rightarrow> nat \<Rightarrow> real list \<Rightarrow> real list" where
  "addWordFeatures words index embedding =
     fold (\<lambda>word emb.
             if int index < int (length emb) - 50
             then (let hash = nat (hashWord word mod 50)
                   in emb[index + hash := emb ! (index + hash) + 0.5])
             else emb)
          words embedding"

text \<open>The vector of \<open>generateFallbackEmbedding\<close> as it stands before the \<open>// Normalize\<close> step.\<close>

definition fallbackFeatures :: "string \<Rightarrow> real list" where
  "fallbackFeatures text =
     (let cleanText = toLowerCase text;
          (embedding, index) = scoreCategories cleanText (replicate 300 0, 0);
          words = filter (\<lambda>w. length w > 2) (splitNonWord cleanText)
      in addWordFeatures words index embedding)"

text \<open>\<open>Math.sqrt(embedding.reduce((sum, val) => sum + val * val, 0))\<close>.\<close>

definition l2norm :: "real list \<Rightarrow> real" where
  "l2norm embedding = sqrt (fold (\<lambda>val sum. sum + val * val) embedding 0)"

definition normalize :: "real list \<Rightarrow> real list" where
  "normalize embedding =
     (let norm = l2norm embedding
      in if norm > 0 then map (\<lambda>val. val / norm) embedding else embedding)"

definition generateFallbackEmbedding :: "string \<Rightarrow> real list" where
  "generateFallbackEmbedding text = normalize (fallbackFeatures text)"

text \<open>
  \<open>generateEmbedding\<close>: the external sentence-embedding model is a parameter; \<open>None\<close> is
  \<open>this.model === null\<close>, and a model that throws is answered by the fallback.
\<close>

type_synonym embeddingModel = "string \<Rightarrow> error + real list"

definition generateEmbedding :: "embeddingModel option \<Rightarrow> string \<Rightarrow> real list" where
  "generateEmbedding model text =
     (case model of
        None \<Rightarrow> generateFallbackEmbedding text
      | Some m \<Rightarrow> (case m text of
                     Inr embedding \<Rightarrow> embedding
                   | Inl err \<Rightarrow> generateFallbackEmbedding text))"


subsection \<open>Cosine similarity on binary64 numbers\<close>

text \<open>
  The engine computes \<open>+\<close>, \<open>*\<close>, \<open>/\<close> and \<open>Math.sqrt\<close> on binary64 numbers: each returns
  the exact result rounded to the nearest number with a significand of 53 bits, a tie going
  to the even significand. \<open>toDouble\<close> is that rounding: \<open>binade x\<close> is the exponent of \<open>x\<close>,
  \<open>ulp x\<close> the distance of neighbouring binary64 numbers around \<open>x\<close>. The exponent is taken
  as unbounded: \<open>Infinity\<close> and the subnormal numbers are not represented, so \<open>toDouble\<close> is
  the engine's rounding for zero and for results of magnitude from \<open>1 / 2 ^ 1022\<close> up to
  the largest binary64 number.
\<close>

definition roundHalfEven :: "real \<Rightarrow> int" where
  "roundHalfEven r =
     (let f = \<lfloor>r\<rfloor>
      in if r - of_int f < 1 / 2 then f
         else if 1 / 2 < r - of_int f then f + 1
         else if even f then f else f + 1)"

definition binade :: "real \<Rightarrow> int" where
  "binade x = \<lfloor>log 2 \<bar>x\<bar>\<rfloor>"

definition ulp :: "real \<Rightarrow> real" where
  "ulp x = 2 powr (of_int (binade x) - 52)"

definition toDouble :: "real \<Rightarrow> real" where
  "toDouble x = (if x = 0 then 0 else of_int (roundHalfEven (x / ulp x)) * ulp x)"

text \<open>The unit roundoff of binary64.\<close>

definition unitRoundoff :: real where
  "unitRoundoff = 1 / 2 ^ 53"

text \<open>
  \<open>ProductRAGSystem.cosineSimilarity\<close>: the loop runs over
  \<open>Math.min(vec1.length, vec2.length)\<close> and accumulates \<open>dotProduct\<close>, \<open>norm1\<close>, \<open>norm2\<close>;
  \<open>a += b * c\<close> rounds the product and then the sum.
\<close>

definition cosineLoop :: "real list \<Rightarrow> real list \<Rightarrow> nat \<Rightarrow> real \<times> real \<times> real" where
  "cosineLoop vec1 vec2 n =
     fold (\<lambda>i (dotProduct, norm1, norm2).
             (toDouble (dotProduct + toDouble (vec1 ! i * vec2 ! i)),
              toDouble (norm1 + toDouble (vec1 ! i * vec1 ! i)),
              toDouble (norm2 + toDouble (vec2 ! i * vec2 ! i))))
          [0..<n] (0, 0, 0)"

definition cosineSimilarity :: "real list \<Rightarrow> real list \<Rightarrow> real" where
  "cosineSimilarity vec1 vec2 =
     (let (dotProduct, norm1, norm2) = cosineLoop vec1 vec2 (min (length vec1) (length vec2));
          norm1 = toDouble (sqrt norm1);
          norm2 = toDouble (sqrt norm2)
      in if norm1 = 0 \<or> norm2 = 0 then 0 else toDouble (dotProduct / toDouble (norm1 * norm2)))"

text \<open>
  One accumulator of the loop on its own: \<open>dotProduct\<close> after \<open>n\<close> iterations. On a vector
  and itself it is \<open>norm1\<close>.
\<close>

definition dotAcc :: "real list \<Rightarrow> real list \<Rightarrow> nat \<Rightarrow> real" where
  "dotAcc vec1 vec2 n =
     fold (\<lambda>i dotProduct. toDouble (dotProduct + toDouble (vec1 ! i * vec2 ! i))) [0..<n] 0"

text \<open>
  \<open>VectorProductSearch.cosineSimilarity\<close>: the loop runs over \<open>vec1.length\<close>. Reading
  \<open>vec2[i]\<close> past the end gives \<open>undefined\<close>, and arithmetic on it gives \<open>NaN\<close>, here \<open>None\<close>.
\<close>

definition readNum :: "real list \<Rightarrow> nat \<Rightarrow> real option" where
  "readNum vec i = (if i < length vec then Some (vec ! i) else None)"

fun nanAdd :: "real option \<Rightarrow> real option \<Rightarrow> real option" where
  "nanAdd (Some a) (Some b) = Some (toDouble (a + b))"
| "nanAdd _ _ = None"

fun nanMul :: "real option \<Rightarrow> real option \<Rightarrow> real option" where
  "nanMul (Some a) (Some b) = Some (toDouble (a * b))"
| "nanMul _ _ = None"

fun nanDiv :: "real option \<Rightarrow> real option \<Rightarrow> real option" where
  "nanDiv (Some a) (Some b) = Some (toDouble (a / b))"
| "nanDiv _ _ = None"

definition cosineLoopVPS ::
  "real list \<Rightarrow> real list \<Rightarrow> real option \<times> real \<times> real option" where
  "cosineLoopVPS vec1 vec2 =
     fold (\<lambda>i (dotProduct, norm1, norm2).
             (nanAdd dotProduct (nanMul (Some (vec1 ! i)) (readNum vec2 i)),
              toDouble (norm1 + toDouble (vec1 ! i * vec1 ! i)),
              nanAdd norm2 (nanMul (readNum vec2 i) (readNum vec2 i))))
          [0..<length vec1] (Some 0, 0, Some 0)"

definition cosineSimilarityVPS :: "real list \<Rightarrow> real list \<Rightarrow> real option" where
  "cosineSimilarityVPS vec1 vec2 =
     (let (dotProduct, norm1, norm2) = cosineLoopVPS vec1 vec2;
          norm1 = toDouble (sqrt norm1);
          norm2 = map_option (\<lambda>norm. toDouble (sqrt norm)) norm2
      in if norm1 = 0 \<or> norm2 = Some 0 then Some 0
         else nanDiv dotProduct (nanMul (Some norm1) norm2))"

text \<open>
  A vector of JavaScript numbers is a list of binary64 numbers, the numbers that \<open>toDouble\<close>
  leaves as they are. The vectors the program compares are embeddings: \<open>Float32Array\<close>s and
  the output of the sentence-embedding model. A component of such a vector is zero or has a
  magnitude from \<open>1 / 2 ^ 149\<close> up to \<open>2 ^ 128\<close>. On vectors of fewer than \<open>2 ^ 50\<close> such
  components no intermediate result of \<open>cosineSimilarity\<close> leaves the range on which
  \<open>toDouble\<close> is the engine's rounding.
\<close>

definition isDouble :: "real \<Rightarrow> bool" where
  "isDouble x = (toDouble x = x)"

definition float32Magnitude :: "real \<Rightarrow> bool" where
  "float32Magnitude x = (x = 0 \<or> (1 / 2 ^ 149 \<le> \<bar>x\<bar> \<and> \<bar>x\<bar> < 2 ^ 128))"

definition float32Vector :: "real list \<Rightarrow> bool" where
  "float32Vector v =
     (length v < 2 ^ 50 \<and> list_all (\<lambda>x. isDouble x \<and> float32Magnitude x) v)"

text \<open>
  The exact results that \<open>cosineSimilarity\<close> rounds, in the order of the computation: per
  iteration a product and a sum for each accumulator, then the two square roots, and past
  the zero test the product of the norms and the quotient. \<open>normalRange\<close> is the range on
  which \<open>toDouble\<close> is the engine's rounding.
\<close>

definition normalRange :: "real \<Rightarrow> bool" where
  "normalRange x = (x = 0 \<or> (1 / 2 ^ 1022 \<le> \<bar>x\<bar> \<and> \<bar>x\<bar> < 2 ^ 1023))"

definition cosineOperands :: "real list \<Rightarrow> real list \<Rightarrow> real list" where
  "cosineOperands vec1 vec2 =
     (let n = min (length vec1) (length vec2);
          (dotProduct, norm1, norm2) = cosineLoop vec1 vec2 n;
          root1 = toDouble (sqrt norm1);
          root2 = toDouble (sqrt norm2)
      in concat (map (\<lambda>i. [vec1 ! i * vec2 ! i, dotAcc vec1 vec2 i + toDouble (vec1 ! i * vec2 ! i),
                            vec1 ! i * vec1 ! i, dotAcc vec1 vec1 i + toDouble (vec1 ! i * vec1 ! i),
                            vec2 ! i * vec2 ! i, dotAcc vec2 vec2 i + toDouble (vec2 ! i * vec2 ! i)])
                     [0..<n])
         @ [sqrt norm1, sqrt norm2]
         @ (if root1 = 0 \<or> root2 = 0 then []
            else [root1 * root2, dotProduct / toDouble (root1 * root2)]))"

text \<open>The multiples of \<open>1 / 2 ^ 350\<close>, which hold every accumulator of a run on embeddings.\<close>

definition onGrid :: "real \<Rightarrow> bool" where
  "onGrid x = (\<exists>m::int. x = of_int m / 2 ^ 350)"

section \<open>Chunking pipeline\<close>

text \<open>
  The context record built by \<open>createProductContext\<close>, as \<open>chunkProductInfo\<close> reads it.
  Record fields carry a prefix naming their record (\<open>pc_title\<close> is \<open>context.title\<close>,
  \<open>ch_content\<close> is \<open>chunk.content\<close>), so that the source's variable names stay free.
\<close>

record productContext =
  pc_title :: string
  pc_brand :: string
  pc_price :: string
  pc_description :: string
  pc_productType :: string
  pc_colors :: "string list"
  pc_materials :: "string list"
  pc_style :: "string list"
  pc_gender :: string
  pc_fullText :: string

datatype chunkType = TitleBrand | Attributes | Description

text \<open>The \<open>metadata\<close> object of a chunk; its fields depend on the chunk type.\<close>

datatype chunkMetadata =
    TitleBrandMetadata string string string
  | AttributesMetadata "string list" "string list" "string list" string string
  | DescriptionMetadata bool

text \<open>
  A chunk. \<open>ch_chunkIndex\<close> is present on the windows of a long description only;
  \<open>ch_embedding\<close> is \<open>None\<close> where a stored chunk carries no embedding.
\<close>

record chunk =
  ch_productId :: string
  ch_type :: chunkType
  ch_content :: string
  ch_chunkIndex :: "nat option"
  ch_metadata :: chunkMetadata
  ch_embedding :: "real list option"
  ch_timestamp :: nat
  ch_domain :: string

text \<open>\<open>xs.join(sep)\<close>.\<close>

fun join :: "string \<Rightarrow> string list \<Rightarrow> string" where
  "join sep [] = []"
| "join sep [x] = x"
| "join sep (x # y # ys) = x @ sep @ join sep (y # ys)"

text \<open>
  The loop of \<open>splitIntoChunks\<close>:
  \<open>for (let i = 0; i < text.length; i += chunkSize - overlap) {
       const chunk = text.substring(i, i + chunkSize);
       if (chunk.trim()) chunks.push(chunk.trim()); }\<close>.
  With \<open>chunkSize - overlap = 0\<close> the loop does not end, which is the value \<open>None\<close>.
\<close>

partial_function (option) chunkLoop ::
  "string \<Rightarrow> nat \<Rightarrow> nat \<Rightarrow> nat \<Rightarrow> string list \<Rightarrow> string list option" where
  "chunkLoop text chunkSize overlap i chunks =
     (if i < length text
      then (let chunk = substring text i (i + chunkSize)
            in chunkLoop text chunkSize overlap (i + (chunkSize - overlap))
                 (if trim chunk \<noteq> [] then chunks @ [trim chunk] else chunks))
      else Some chunks)"

text \<open>\<open>overlap = Math.floor(chunkSize * 0.2)\<close>.\<close>

definition splitIntoChunks :: "string \<Rightarrow> nat \<Rightarrow> string list option" where
  "splitIntoChunks text chunkSize = chunkLoop text chunkSize (chunkSize div 5) 0 []"

text \<open>The \<open>attributes\<close> array of \<open>chunkProductInfo\<close>.\<close>

definition attributeLines :: "productContext \<Rightarrow> string list" where
  "attributeLines context =
     (if length (pc_colors context) > 0 then [''Colors: '' @ join '', '' (pc_colors context)] else []) @
     (if length (pc_materials context) > 0 then [''Materials: '' @ join '', '' (pc_materials context)] else []) @
     (if length (pc_style context) > 0 then [''Style: '' @ join '', '' (pc_style context)] else []) @
     (if pc_productType context \<noteq> ''unknown'' then [''Type: '' @ pc_productType context] else []) @
     (if pc_gender context \<noteq> ''unisex'' then [''Gender: '' @ pc_gender context] else []) @
     (if pc_price context \<noteq> [] then [''Price: '' @ pc_price context] else [])"

text \<open>
  The environment of \<open>chunkProductInfo\<close>: the embedding model, the chunk size of the
  constructor, \<open>Date.now()\<close> at the n-th chunk, and \<open>window.location.hostname\<close>.
\<close>

record chunkEnv =
  env_model :: "embeddingModel option"
  env_chunkSize :: nat
  env_now :: "nat \<Rightarrow> nat"
  env_hostname :: string

definition bareChunk :: "string \<Rightarrow> chunkType \<Rightarrow> string \<Rightarrow> nat option \<Rightarrow> chunkMetadata \<Rightarrow> chunk" where
  "bareChunk pid ty c idx md =
     \<lparr>ch_productId = pid, ch_type = ty, ch_content = c, ch_chunkIndex = idx, ch_metadata = md,
      ch_embedding = None, ch_timestamp = 0, ch_domain = []\<rparr>"

text \<open>The three groups of chunks, before the embeddings are added.\<close>

definition titleBrandChunks :: "productContext \<Rightarrow> string \<Rightarrow> chunk list" where
  "titleBrandChunks context pid =
     (if pc_title context \<noteq> [] \<or> pc_brand context \<noteq> []
      then [bareChunk pid TitleBrand (trim (pc_brand context @ '' '' @ pc_title context)) None
              (TitleBrandMetadata (pc_brand context) (pc_title context) (pc_productType context))]
      else [])"

definition attributeChunks :: "productContext \<Rightarrow> string \<Rightarrow> chunk list" where
  "attributeChunks context pid =
     (let attributes = attributeLines context
      in if length attributes > 0
         then [bareChunk pid Attributes (join ''. '' attributes) None
                 (AttributesMetadata (pc_colors context) (pc_materials context) (pc_style context)
                    (pc_productType context) (pc_gender context))]
         else [])"

definition descriptionChunks :: "nat \<Rightarrow> productContext \<Rightarrow> string \<Rightarrow> chunk list option" where
  "descriptionChunks limit context pid =
     (if pc_fullText context \<noteq> [] \<and> length (pc_fullText context) > limit
      then (case splitIntoChunks (pc_fullText context) limit of
              None \<Rightarrow> None
            | Some textChunks \<Rightarrow>
                Some (map (\<lambda>(index, c). bareChunk pid Description c (Some index) (DescriptionMetadata True))
                        (enumerate 0 textChunks)))
      else if pc_fullText context \<noteq> []
      then Some [bareChunk pid Description (pc_fullText context) None (DescriptionMetadata True)]
      else Some [])"

text \<open>
  \<open>for (const chunk of chunks) { chunk.embedding = await this.generateEmbedding(chunk.content);
     chunk.timestamp = Date.now(); chunk.domain = window.location.hostname; }\<close>
\<close>

definition addEmbedding :: "chunkEnv \<Rightarrow> nat \<times> chunk \<Rightarrow> chunk" where
  "addEmbedding env p =
     (case p of (n, c) \<Rightarrow>
        c\<lparr>ch_embedding := Some (generateEmbedding (env_model env) (ch_content c)),
          ch_timestamp := env_now env n, ch_domain := env_hostname env\<rparr>)"

definition chunkProductInfo :: "chunkEnv \<Rightarrow> productContext \<Rightarrow> string \<Rightarrow> chunk list option" where
  "chunkProductInfo env context pid =
     (case descriptionChunks (env_chunkSize env) context pid of
        None \<Rightarrow> None
      | Some ds \<Rightarrow>
          Some (map (addEmbedding env)
                  (enumerate 0 (titleBrandChunks context pid @ attributeChunks context pid @ ds))))"

text \<open>The contents of the description chunks, in order.\<close>

definition descriptionContents :: "chunk list \<Rightarrow> string list" where
  "descriptionContents cs = map ch_content (filter (\<lambda>c. ch_type c = Description) cs)"

text \<open>
  Two chunks overlap by \<open>n\<close> characters: the last \<open>n\<close> characters of the first are the
  first \<open>n\<close> characters of the second.
\<close>

definition overlapBy :: "nat \<Rightarrow> string \<Rightarrow> string \<Rightarrow> bool" where
  "overlapBy n c d = (n \<le> length c \<and> n \<le> length d \<and> drop (length c - n) c = take n d)"

fun consecutiveOverlap :: "nat \<Rightarrow> string list \<Rightarrow> bool" where
  "consecutiveOverlap n (c # d # ds) = (overlapBy n c d \<and> consecutiveOverlap n (d # ds))"
| "consecutiveOverlap n ds = True"

text \<open>
  The windows the loop of \<open>splitIntoChunks\<close> reads from a text: window \<open>k\<close> starts at
  \<open>k * step\<close> and is at most \<open>limit\<close> long.
\<close>

definition windowCount :: "string \<Rightarrow> nat \<Rightarrow> nat" where
  "windowCount text step = (length text + step - 1) div step"

definition window :: "string \<Rightarrow> nat \<Rightarrow> nat \<Rightarrow> nat \<Rightarrow> string" where
  "window text limit step k = substring text (k * step) (k * step + limit)"

section \<open>Similarity retrieval\<close>

text \<open>A stored chunk together with its similarity to the query: \<open>{...chunk, similarity}\<close>.\<close>

record retrievedChunk =
  rc_chunk :: chunk
  rc_similarity :: real

text \<open>
  A record of the \<open>productMeta\<close> store. \<open>pm_title\<close> and \<open>pm_brand\<close> are \<open>None\<close> where
  the captured product had none; \<open>pm_elementInfo\<close> is tag, classes and index.
\<close>

record productMeta =
  pm_productId :: string
  pm_title :: "string option"
  pm_brand :: "string option"
  pm_price :: string
  pm_link :: string
  pm_image :: string
  pm_elementInfo :: "string \<times> string \<times> nat"

text \<open>
  The \<open>ProductRAGSystem\<close> object: the fields set by the constructor and what the two
  reads of the database answer. \<open>Inl\<close> is a rejected request.
\<close>

record ragSystem =
  rs_model :: "embeddingModel option"
  rs_maxRetrievedChunks :: nat
  rs_similarityThreshold :: real
  rs_getAllChunks :: "error + chunk list"
  rs_getProductMetadata :: "string \<Rightarrow> error + productMeta option"

text \<open>
  \<open>chunks.map(chunk => ({...chunk, similarity: this.cosineSimilarity(queryEmbedding,
  chunk.embedding)}))\<close>. A chunk without embedding makes \<open>vec2.length\<close> throw a TypeError.
\<close>

fun similaritiesOf :: "real list \<Rightarrow> chunk list \<Rightarrow> error + retrievedChunk list" where
  "similaritiesOf queryEmbedding [] = Inr []"
| "similaritiesOf queryEmbedding (c # cs) =
     (case ch_embedding c of
        None \<Rightarrow> Inl (Error (''Cannot read properties of undefined (reading '' @ [CHR 0x27] @ ''length'' @ [CHR 0x27] @ '')''))
      | Some e \<Rightarrow>
          (case similaritiesOf queryEmbedding cs of
             Inl err \<Rightarrow> Inl err
           | Inr rest \<Rightarrow>
               Inr (\<lparr>rc_chunk = c, rc_similarity = cosineSimilarity queryEmbedding e\<rparr> # rest)))"

text \<open>
  \<open>similarities.sort((a, b) => b.similarity - a.similarity)\<close>: the sort of the language is
  stable, so chunks of equal similarity keep their order.
\<close>

definition sortBySimilarity :: "retrievedChunk list \<Rightarrow> retrievedChunk list" where
  "sortBySimilarity cs = sort_key (\<lambda>c. - rc_similarity c) cs"

text \<open>\<open>retrieveRelevantChunks(query, maxChunks)\<close>; \<open>maxChunks\<close> is a count.\<close>

definition retrieveRelevantChunks ::
  "ragSystem \<Rightarrow> string \<Rightarrow> nat \<Rightarrow> error + retrievedChunk list" where
  "retrieveRelevantChunks this query maxChunks =
     (let queryEmbedding = generateEmbedding (rs_model this) query
      in case rs_getAllChunks this of
           Inl err \<Rightarrow> Inl err
         | Inr chunks \<Rightarrow>
             (case similaritiesOf queryEmbedding chunks of
                Inl err \<Rightarrow> Inl err
              | Inr similarities \<Rightarrow>
                  Inr (take maxChunks
                         (filter (\<lambda>c. rc_similarity c > rs_similarityThreshold this)
                            (sortBySimilarity similarities)))))"

section \<open>RAG orchestrator\<close>

text \<open>Decimal digits of a number, for template strings.\<close>

function showNat :: "nat \<Rightarrow> string" where
  "showNat n = (if n < 10 then [char_of (48 + n)] else showNat (n div 10) @ [char_of (48 + n mod 10)])"
  by pat_completeness auto
termination
  by (relation "measure id") auto

text \<open>\<open>x.toFixed(3)\<close>: the nearest multiple of 0.001, the larger one on a tie.\<close>

definition toFixed3 :: "real \<Rightarrow> string" where
  "toFixed3 x =
     (let n = nat \<lfloor>\<bar>x\<bar> * 1000 + 1 / 2\<rfloor>;
          frac = showNat (n mod 1000);
          digits = showNat (n div 1000) @ ''.'' @ replicate (3 - length frac) (CHR ''0'') @ frac
      in if x < 0 then ''-'' @ digits else digits)"

text \<open>The entries of the \<open>productScores\<close> object.\<close>

record productScore =
  maxSimilarity :: real
  avgSimilarity :: real
  chunkCount :: nat
  totalSimilarity :: real

text \<open>
  The \<open>relevantChunks.forEach\<close> that fills \<open>productScores\<close>. The object is an association
  list in insertion order. Product ids that name a property of \<open>Object.prototype\<close> are
  not represented.
\<close>

definition addChunkScore ::
  "retrievedChunk \<Rightarrow> (string \<times> productScore) list \<Rightarrow> (string \<times> productScore) list" where
  "addChunkScore c productScores =
     (let pid = ch_productId (rc_chunk c);
          score = (case map_of productScores pid of
                     None \<Rightarrow> \<lparr>maxSimilarity = 0, avgSimilarity = 0, chunkCount = 0, totalSimilarity = 0\<rparr>
                   | Some s \<Rightarrow> s);
          total = totalSimilarity score + rc_similarity c;
          n = chunkCount score + 1;
          score' = \<lparr>maxSimilarity = max (maxSimilarity score) (rc_similarity c),
                    avgSimilarity = total / real n, chunkCount = n, totalSimilarity = total\<rparr>
      in if map_of productScores pid = None then productScores @ [(pid, score')]
         else map (\<lambda>(k, v). if k = pid then (k, score') else (k, v)) productScores)"

text \<open>
  \<open>Object.entries\<close>: the keys that are array indices (canonical decimal numbers below
  \<open>2^32 - 1\<close>) come first, in ascending order, the other keys follow in insertion order.
\<close>

definition digitsValue :: "string \<Rightarrow> int" where
  "digitsValue s = foldl (\<lambda>v c. v * 10 + (int (code c) - 48)) 0 s"

definition isArrayIndex :: "string \<Rightarrow> bool" where
  "isArrayIndex s =
     (s \<noteq> [] \<and> list_all isDigit s \<and> (s = ''0'' \<or> hd s \<noteq> CHR ''0'')
      \<and> length s \<le> 10 \<and> digitsValue s < 4294967295)"

definition objectEntries :: "(string \<times> 'a) list \<Rightarrow> (string \<times> 'a) list" where
  "objectEntries obj =
     sort_key (\<lambda>(k, v). digitsValue k) (filter (\<lambda>(k, v). isArrayIndex k) obj)
     @ filter (\<lambda>(k, v). \<not> isArrayIndex k) obj"

text \<open>A candidate match.\<close>

record match =
  m_productId :: string
  m_title :: "string option"
  m_brand :: string
  m_price :: string
  m_link :: string
  m_image :: string
  m_elementInfo :: "string \<times> string \<times> nat"
  m_confidence :: real
  m_avgConfidence :: real
  m_reason :: string
  m_retrievalScore :: real

text \<open>
  The loop over \<open>Object.entries(productScores)\<close>: a rejected metadata read ends it with
  the error; a product without metadata, or not above the threshold, is skipped.
\<close>

fun createMatches :: "ragSystem \<Rightarrow> (string \<times> productScore) list \<Rightarrow> error + match list" where
  "createMatches this [] = Inr []"
| "createMatches this ((productId, scores) # rest) =
     (case rs_getProductMetadata this productId of
        Inl err \<Rightarrow> Inl err
      | Inr found \<Rightarrow>
          (case createMatches this rest of
             Inl err \<Rightarrow> Inl err
           | Inr matches \<Rightarrow>
               (case found of
                  None \<Rightarrow> Inr matches
                | Some productMeta \<Rightarrow>
                    if maxSimilarity scores > rs_similarityThreshold this
                    then Inr (\<lparr>m_productId = pm_productId productMeta,
                               m_title = pm_title productMeta,
                               m_brand = (case pm_brand productMeta of None \<Rightarrow> [] | Some b \<Rightarrow> b),
                               m_price = pm_price productMeta,
                               m_link = pm_link productMeta,
                               m_image = pm_image productMeta,
                               m_elementInfo = pm_elementInfo productMeta,
                               m_confidence = maxSimilarity scores,
                               m_avgConfidence = avgSimilarity scores,
                               m_reason = ''Semantic similarity: '' @ toFixed3 (maxSimilarity scores)
                                          @ '' ('' @ showNat (chunkCount scores) @ '' chunks)'',
                               m_retrievalScore = maxSimilarity scores\<rparr> # matches)
                    else Inr matches)))"

text \<open>\<open>s.replace(/\s+/g, ' ')\<close>: every maximal run of whitespace becomes one space.\<close>

fun collapseLoop :: "bool \<Rightarrow> string \<Rightarrow> string" where
  "collapseLoop inRun [] = []"
| "collapseLoop inRun (c # cs) =
     (if isSpace c then (if inRun then collapseLoop True cs else CHR '' '' # collapseLoop True cs)
      else c # collapseLoop False cs)"

definition collapseSpaces :: "string \<Rightarrow> string" where
  "collapseSpaces s = collapseLoop False s"

text \<open>
  The deduplication key:
  \<open>(match.title || '').toLowerCase().replace(/\s+/g, ' ').replace(/[^\w\s-]/g, '').trim()
  .substring(0, 30)\<close>.
\<close>

definition dedupKey :: "match \<Rightarrow> string" where
  "dedupKey m =
     (let normalizedTitle =
            trim (filter (\<lambda>c. isWordChar c \<or> isSpace c \<or> c = CHR ''-'')
                    (collapseSpaces (toLowerCase (case m_title m of None \<Rightarrow> [] | Some t \<Rightarrow> t))))
      in substring normalizedTitle 0 30)"

text \<open>
  The \<open>matches.forEach\<close> over the \<open>Map\<close>: a key is inserted at the end the first time it
  is set, and keeps its place when its value is replaced.
\<close>

definition dedupStep :: "(string \<times> match) list \<Rightarrow> match \<Rightarrow> (string \<times> match) list" where
  "dedupStep deduplicatedMatches m =
     (case map_of deduplicatedMatches (dedupKey m) of
        None \<Rightarrow> deduplicatedMatches @ [(dedupKey m, m)]
      | Some kept \<Rightarrow>
          if m_confidence m > m_confidence kept
          then map (\<lambda>(k, v). if k = dedupKey m then (k, m) else (k, v)) deduplicatedMatches
          else deduplicatedMatches)"

text \<open>\<open>Array.from(deduplicatedMatches.values())\<close>.\<close>

definition deduplicate :: "match list \<Rightarrow> match list" where
  "deduplicate matches = map snd (foldl dedupStep [] matches)"

text \<open>\<open>finalMatches.sort((a, b) => b.confidence - a.confidence)\<close>.\<close>

definition sortByConfidence :: "match list \<Rightarrow> match list" where
  "sortByConfidence ms = sort_key (\<lambda>m. - m_confidence m) ms"

text \<open>The object \<open>generateWithRAG\<close> returns.\<close>

record ragResult =
  matches :: "match list"
  reasoning :: string
  retrievedChunks :: nat

text \<open>The body of the \<open>try\<close> block of \<open>generateWithRAG\<close>.\<close>

definition generateWithRAG_try :: "ragSystem \<Rightarrow> string \<Rightarrow> error + ragResult" where
  "generateWithRAG_try this query =
     (case retrieveRelevantChunks this query (rs_maxRetrievedChunks this) of
        Inl err \<Rightarrow> Inl err
      | Inr relevantChunks \<Rightarrow>
          if length relevantChunks = 0
          then Inr \<lparr>matches = [], reasoning = ''No semantically similar products found'',
                    retrievedChunks = 0\<rparr>
          else (let productScores = fold addChunkScore relevantChunks []
                in case createMatches this (objectEntries productScores) of
                     Inl err \<Rightarrow> Inl err
                   | Inr candidates \<Rightarrow>
                       (let finalMatches = sortByConfidence (deduplicate candidates)
                        in Inr \<lparr>matches = finalMatches,
                                 reasoning = ''Found '' @ showNat (length finalMatches)
                                             @ '' products via semantic vector search'',
                                 retrievedChunks = length relevantChunks\<rparr>)))"

text \<open>
  \<open>generateWithRAG\<close>: the \<open>catch\<close> block turns an error of the body into a result. The
  function itself has the type of a computation that may throw.
\<close>

definition generateWithRAG :: "ragSystem \<Rightarrow> string \<Rightarrow> error + ragResult" where
  "generateWithRAG this query =
     (case generateWithRAG_try this query of
        Inr result \<Rightarrow> Inr result
      | Inl err \<Rightarrow>
          Inr \<lparr>matches = [], reasoning = ''RAG generation failed: '' @ message err,
               retrievedChunks = 0\<rparr>)"

text \<open>
  The invariant of the \<open>Map\<close> during deduplication: its keys are distinct and every
  match is stored under its own key.
\<close>

definition keyed :: "(string \<times> match) list \<Rightarrow> bool" where
  "keyed kvs = (distinct (map fst kvs) \<and> list_all (\<lambda>(k, v). dedupKey v = k) kvs)"

section \<open>Deterministic query and match scorer\<close>

subsection \<open>Regular expressions of the scorer\<close>

text \<open>Matching a literal pattern at the start of a text, ignoring case (flag \<open>i\<close>).\<close>

fun startsWithCI :: "string \<Rightarrow> string \<Rightarrow> bool" where
  "startsWithCI s [] = True"
| "startsWithCI [] (p # ps) = False"
| "startsWithCI (c # cs) (p # ps) = (toLowerChar c = toLowerChar p \<and> startsWithCI cs ps)"

text \<open>
  \<open>new RegExp(`\\b${w}\\b`, 'i')\<close> for a word \<open>w\<close> of a fixed vocabulary: letters,
  digits and single spaces, beginning and ending with a letter. \<open>matchWordAt prev w s\<close>
  is a match at the position where \<open>s\<close> starts and \<open>prev\<close> is the character before it: the
  word boundaries ask for no word character on either side.
\<close>

definition matchWordAt :: "char option \<Rightarrow> string \<Rightarrow> string \<Rightarrow> bool" where
  "matchWordAt prev w s =
     ((case prev of None \<Rightarrow> True | Some p \<Rightarrow> \<not> isWordChar p)
      \<and> startsWithCI s w
      \<and> (case drop (length w) s of [] \<Rightarrow> True | c # rest \<Rightarrow> \<not> isWordChar c))"

fun wordSearch :: "char option \<Rightarrow> string \<Rightarrow> string \<Rightarrow> bool" where
  "wordSearch prev w [] = matchWordAt prev w []"
| "wordSearch prev w (c # cs) = (matchWordAt prev w (c # cs) \<or> wordSearch (Some c) w cs)"

text \<open>\<open>regex.test(text)\<close> for that expression: the word occurs as a whole word.\<close>

definition testWord :: "string \<Rightarrow> string \<Rightarrow> bool" where
  "testWord w s = wordSearch None w s"

text \<open>
  \<open>s.replace(new RegExp(`\\b${w}\\b`, 'gi'), '')\<close>: every match is removed, the search
  going on behind the match. \<open>skip\<close> counts the characters of a match still to drop.
\<close>

fun removeWordLoop :: "char option \<Rightarrow> nat \<Rightarrow> string \<Rightarrow> string \<Rightarrow> string" where
  "removeWordLoop prev skip w [] = []"
| "removeWordLoop prev skip w (c # cs) =
     (if skip > 0 then removeWordLoop (Some c) (skip - 1) w cs
      else if matchWordAt prev w (c # cs) then removeWordLoop (Some c) (length w - 1) w cs
      else c # removeWordLoop (Some c) 0 w cs)"

definition removeWord :: "string \<Rightarrow> string \<Rightarrow> string" where
  "removeWord w s = removeWordLoop None 0 w s"

text \<open>
  The keywords of a query come from the user, so the pattern built from one can hold any
  character. Where a keyword consists of word characters the pattern is literal; for any
  other keyword the engine's answer is a parameter \<open>rx\<close> of the model: \<open>rx w s\<close> is
  \<open>Some\<close> of the result of \<open>test\<close>, or \<open>None\<close> when the constructor throws a SyntaxError.
\<close>

type_synonym hostRegExp = "string \<Rightarrow> string \<Rightarrow> bool option"

definition testKeyword :: "hostRegExp \<Rightarrow> string \<Rightarrow> string \<Rightarrow> error + bool" where
  "testKeyword rx w s =
     (if w \<noteq> [] \<and> list_all isWordChar w then Inr (testWord w s)
      else (case rx w s of
              None \<Rightarrow> Inl (Error ''Invalid regular expression'')
            | Some b \<Rightarrow> Inr b))"

text \<open>
  \<open>\d+(?:[.,]\d+)?\<close> at the start of a text: the number matched and the rest of the text.
\<close>

definition matchNumber :: "string \<Rightarrow> (string \<times> string) option" where
  "matchNumber s =
     (let d = takeWhile isDigit s; r = dropWhile isDigit s
      in if d = [] then None
         else (case r of
                 [] \<Rightarrow> Some (d, r)
               | c # r' \<Rightarrow>
                   if (c = CHR ''.'' \<or> c = CHR '','') \<and> takeWhile isDigit r' \<noteq> []
                   then Some (d @ [c] @ takeWhile isDigit r', dropWhile isDigit r')
                   else Some (d, r)))"

text \<open>
  The first alternative of a list that the text starts with, ignoring case, as the text
  has it, and the rest of the text.
\<close>

fun matchAlternative :: "string list \<Rightarrow> string \<Rightarrow> (string \<times> string) option" where
  "matchAlternative [] s = None"
| "matchAlternative (a # alts) s =
     (if startsWithCI s a then Some (take (length a) s, drop (length a) s)
      else matchAlternative alts s)"

text \<open>
  The currency symbols \<open>\<euro>|\$|\<pounds>\<close> and the currencies \<open>\<euro>|\$|\<pounds>|usd|eur|gbp\<close>; the euro
  sign is no character of the model.
\<close>

definition currencySymbols :: "string list" where
  "currencySymbols = [''$'', [CHR 0xA3]]"

definition currencies :: "string list" where
  "currencies = [''$'', [CHR 0xA3], ''usd'', ''eur'', ''gbp'']"

text \<open>
  The groups of a match, \<open>match[1]\<close> and \<open>match[2]\<close> (\<open>None\<close> is \<open>undefined\<close>), and the
  length of the match.
\<close>

type_synonym groups = "string option \<times> string option"

text \<open>
  \<open>\s*(\<euro>|\$|\<pounds>|usd|eur|gbp)?\s*(\d+(?:[.,]\d+)?)\<close>, the part of the first two price
  patterns behind the keyword.
\<close>

definition matchAmount :: "string \<Rightarrow> (groups \<times> string) option" where
  "matchAmount s =
     (let r1 = dropWhile isSpace s
      in case matchAlternative currencies r1 of
           Some (cur, r2) \<Rightarrow>
             (case matchNumber (dropWhile isSpace r2) of
                None \<Rightarrow> None
              | Some (num, rest) \<Rightarrow> Some ((Some cur, Some num), rest))
         | None \<Rightarrow>
             (case matchNumber r1 of
                None \<Rightarrow> None
              | Some (num, rest) \<Rightarrow> Some ((None, Some num), rest)))"

text \<open>
  \<open>(?:k1|k2|...)\<close> followed by the amount: the alternatives are tried in order, and the
  next one is tried when no amount follows.
\<close>

fun matchKeywordAmount :: "string list \<Rightarrow> string \<Rightarrow> (groups \<times> nat) option" where
  "matchKeywordAmount [] s = None"
| "matchKeywordAmount (k # ks) s =
     (if startsWithCI s k
      then (case matchAmount (drop (length k) s) of
              Some (g, rest) \<Rightarrow> Some (g, length s - length rest)
            | None \<Rightarrow> matchKeywordAmount ks s)
      else matchKeywordAmount ks s)"

definition maxPattern :: "string \<Rightarrow> (groups \<times> nat) option" where
  "maxPattern s = matchKeywordAmount [''under'', ''below'', ''less than'', ''max'', ''maximum''] s"

definition minPattern :: "string \<Rightarrow> (groups \<times> nat) option" where
  "minPattern s = matchKeywordAmount [''above'', ''over'', ''more than'', ''min'', ''minimum''] s"

text \<open>\<open>\s*(?:or less|max|maximum)\<close>.\<close>

definition matchSuffix :: "string \<Rightarrow> string option" where
  "matchSuffix s =
     map_option snd (matchAlternative [''or less'', ''max'', ''maximum''] (dropWhile isSpace s))"

text \<open>\<open>(\<euro>|\$|\<pounds>)\s*(\d+(?:[.,]\d+)?)\s*(?:or less|max|maximum)\<close>.\<close>

definition symbolFirstPattern :: "string \<Rightarrow> (groups \<times> nat) option" where
  "symbolFirstPattern s =
     (case matchAlternative currencySymbols s of
        None \<Rightarrow> None
      | Some (symb, r1) \<Rightarrow>
          (case matchNumber (dropWhile isSpace r1) of
             None \<Rightarrow> None
           | Some (num, r2) \<Rightarrow>
               (case matchSuffix r2 of
                  None \<Rightarrow> None
                | Some rest \<Rightarrow> Some ((Some symb, Some num), length s - length rest))))"

text \<open>\<open>(\d+(?:[.,]\d+)?)\s*(\<euro>|\$|\<pounds>|usd|eur|gbp)\s*(?:or less|max|maximum)\<close>.\<close>

definition numberFirstPattern :: "string \<Rightarrow> (groups \<times> nat) option" where
  "numberFirstPattern s =
     (case matchNumber s of
        None \<Rightarrow> None
      | Some (num, r1) \<Rightarrow>
          (case matchAlternative currencies (dropWhile isSpace r1) of
             None \<Rightarrow> None
           | Some (cur, r2) \<Rightarrow>
               (case matchSuffix r2 of
                  None \<Rightarrow> None
                | Some rest \<Rightarrow> Some ((Some num, Some cur), length s - length rest))))"

text \<open>\<open>(\<euro>|\$|\<pounds>)\s*(\d+(?:[.,]\d+)?)\<close> and \<open>(\d+(?:[.,]\d+)?)\s*(\<euro>|\$|\<pounds>)\<close>.\<close>

definition symbolNumber :: "string \<Rightarrow> (groups \<times> nat) option" where
  "symbolNumber s =
     (case matchAlternative currencySymbols s of
        None \<Rightarrow> None
      | Some (symb, r1) \<Rightarrow>
          (case matchNumber (dropWhile isSpace r1) of
             None \<Rightarrow> None
           | Some (num, rest) \<Rightarrow> Some ((Some symb, Some num), length s - length rest)))"

definition numberSymbol :: "string \<Rightarrow> (groups \<times> nat) option" where
  "numberSymbol s =
     (case matchNumber s of
        None \<Rightarrow> None
      | Some (num, r1) \<Rightarrow>
          (case matchAlternative currencySymbols (dropWhile isSpace r1) of
             None \<Rightarrow> None
           | Some (symb, rest) \<Rightarrow> Some ((Some num, Some symb), length s - length rest)))"

text \<open>
  \<open>while ((match = pattern.exec(s)) !== null)\<close> with the flag \<open>g\<close>: the matches from left
  to right, each search starting behind the match before it. A pattern here matches at
  least one character.
\<close>

fun execLoop :: "(string \<Rightarrow> (groups \<times> nat) option) \<Rightarrow> nat \<Rightarrow> string \<Rightarrow> groups list" where
  "execLoop pattern skip [] = []"
| "execLoop pattern skip (c # cs) =
     (if skip > 0 then execLoop pattern (skip - 1) cs
      else (case pattern (c # cs) of
              Some (g, n) \<Rightarrow> g # execLoop pattern (n - 1) cs
            | None \<Rightarrow> execLoop pattern 0 cs))"

definition execAll :: "(string \<Rightarrow> (groups \<times> nat) option) \<Rightarrow> string \<Rightarrow> groups list" where
  "execAll pattern s = execLoop pattern 0 s"

text \<open>\<open>s.replace(pattern, '')\<close> with the flag \<open>g\<close>.\<close>

fun removeLoop :: "(string \<Rightarrow> (groups \<times> nat) option) \<Rightarrow> nat \<Rightarrow> string \<Rightarrow> string" where
  "removeLoop pattern skip [] = []"
| "removeLoop pattern skip (c # cs) =
     (if skip > 0 then removeLoop pattern (skip - 1) cs
      else (case pattern (c # cs) of
              Some (g, n) \<Rightarrow> removeLoop pattern (n - 1) cs
            | None \<Rightarrow> c # removeLoop pattern 0 cs))"

definition removeAll :: "(string \<Rightarrow> (groups \<times> nat) option) \<Rightarrow> string \<Rightarrow> string" where
  "removeAll pattern s = removeLoop pattern 0 s"

text \<open>
  \<open>parseFloat\<close> on what the patterns capture: a number gives its value, read up to a
  comma; a text that does not start with a digit gives \<open>NaN\<close>, here \<open>None\<close>.
\<close>

definition parseFloat :: "string \<Rightarrow> real option" where
  "parseFloat s =
     (let d = takeWhile isDigit s; r = dropWhile isDigit s
      in if d = [] then None
         else (case r of
                 [] \<Rightarrow> Some (real_of_int (digitsValue d))
               | c # r' \<Rightarrow>
                   if c = CHR ''.''
                   then Some (real_of_int (digitsValue d)
                              + real_of_int (digitsValue (takeWhile isDigit r'))
                                / 10 ^ length (takeWhile isDigit r'))
                   else Some (real_of_int (digitsValue d))))"

text \<open>\<open>a || b\<close> on two groups: the first that is defined and not empty.\<close>

definition orElse :: "string option \<Rightarrow> string option \<Rightarrow> string option" where
  "orElse a b = (case a of Some x \<Rightarrow> if x \<noteq> [] then Some x else b | None \<Rightarrow> b)"

subsection \<open>Query analysis\<close>

datatype constraintType = Max | Min

datatype currency = Currency string | EuroSign

record priceConstraint =
  pcn_type :: constraintType
  pcn_value :: real
  pcn_currency :: currency

text \<open>
  The body of the \<open>while\<close> loop of \<open>extractPriceConstraints\<close> for one match: nothing is
  pushed when the value is \<open>NaN\<close>.
\<close>

definition constraintOf :: "string \<Rightarrow> groups \<Rightarrow> priceConstraint list" where
  "constraintOf prompt g =
     (case g of (g1, g2) \<Rightarrow>
        (case (case orElse g2 g1 of None \<Rightarrow> None | Some v \<Rightarrow> parseFloat v) of
           None \<Rightarrow> []
         | Some v \<Rightarrow>
             [\<lparr>pcn_type = (if js_includes prompt ''under'' \<or> js_includes prompt ''below''
                              \<or> js_includes prompt ''less'' \<or> js_includes prompt ''max''
                           then Max else Min),
               pcn_value = v,
               pcn_currency = (case orElse g1 g2 of None \<Rightarrow> EuroSign | Some c \<Rightarrow> Currency c)\<rparr>]))"

definition extractPriceConstraints :: "string \<Rightarrow> priceConstraint list" where
  "extractPriceConstraints prompt =
     concat (map (\<lambda>pattern. concat (map (constraintOf prompt) (execAll pattern prompt)))
               [maxPattern, minPattern, symbolFirstPattern, numberFirstPattern])"

definition commonBrands :: "string list" where
  "commonBrands =
     [''nike'', ''adidas'', ''apple'', ''samsung'', ''sony'', ''microsoft'', ''google'',
      ''amazon'', ''hp'', ''dell'', ''lenovo'', ''asus'', ''acer'', ''lg'', ''philips'',
      ''bosch'', ''siemens'', ''whirlpool'', ''dyson'', ''bose'', ''beats'', ''jbl'']"

definition extractBrands :: "string \<Rightarrow> string list" where
  "extractBrands prompt = filter (\<lambda>brand. js_includes prompt brand) commonBrands"

definition categoryWords :: "(string \<times> string list) list" where
  "categoryWords =
     [(''electronics'', [''phone'', ''laptop'', ''tablet'', ''computer'', ''headphones'', ''speaker'',
                        ''tv'', ''monitor'']),
      (''clothing'', [''sneakers'', ''shoes'', ''shirt'', ''pants'', ''dress'', ''jacket'', ''hat'',
                     ''clothing'']),
      (''home'', [''furniture'', ''lamp'', ''table'', ''chair'', ''bed'', ''sofa'', ''kitchen'']),
      (''sports'', [''fitness'', ''gym'', ''running'', ''basketball'', ''football'', ''tennis''])]"

definition extractCategories :: "string \<Rightarrow> string list" where
  "extractCategories prompt =
     map fst (filter (\<lambda>(category, ws). list_ex (\<lambda>word. js_includes prompt word) ws) categoryWords)"

definition colorWords :: "string list" where
  "colorWords =
     [''white'', ''black'', ''red'', ''blue'', ''green'', ''yellow'', ''orange'', ''purple'', ''pink'',
      ''brown'', ''gray'', ''grey'', ''silver'', ''gold'', ''beige'', ''navy'', ''turquoise'', ''lime'',
      ''maroon'', ''olive'']"

definition extractColors :: "string \<Rightarrow> string list" where
  "extractColors prompt = filter (\<lambda>color. testWord color prompt) colorWords"

text \<open>An attribute \<open>{ type, value }\<close>.\<close>

type_synonym attribute = "string \<times> string"

definition attributeWords :: "(string \<times> string list) list" where
  "attributeWords =
     [(''size'', [''small'', ''medium'', ''large'', ''xl'', ''xxl'', ''xs'', ''size'']),
      (''material'', [''cotton'', ''leather'', ''wool'', ''silk'', ''polyester'', ''denim'', ''canvas'']),
      (''style'', [''casual'', ''formal'', ''sporty'', ''vintage'', ''modern'', ''classic'']),
      (''features'', [''waterproof'', ''wireless'', ''bluetooth'', ''rechargeable'', ''portable'',
                     ''lightweight''])]"

definition extractAttributes :: "string \<Rightarrow> attribute list" where
  "extractAttributes prompt =
     concat (map (\<lambda>(ty, ws). map (\<lambda>word. (ty, word)) (filter (\<lambda>word. js_includes prompt word) ws))
               attributeWords)"

datatype criterion =
    KeywordCriterion string
  | ColorCriterion string
  | BrandCriterion string
  | PriceCriterion priceConstraint
  | AttributeCriterion attribute

text \<open>\<open>identifyRequiredCriteria\<close>; every criterion has \<open>required: true\<close>.\<close>

definition identifyRequiredCriteria ::
  "string list \<Rightarrow> string list \<Rightarrow> attribute list \<Rightarrow> string list \<Rightarrow> priceConstraint list
   \<Rightarrow> criterion list" where
  "identifyRequiredCriteria kws colors attributes brands priceConstraints =
     map KeywordCriterion kws @ map ColorCriterion colors @ map BrandCriterion brands
     @ map PriceCriterion priceConstraints @ map AttributeCriterion attributes"

definition priceWords :: "string list" where
  "priceWords = [''under'', ''below'', ''less than'', ''max'', ''maximum'', ''above'', ''over'',
                 ''more than'', ''min'', ''minimum'', ''cost'', ''price'', ''budget'', ''cheap'',
                 ''expensive'']"

definition filterWords :: "string list" where
  "filterWords = [''that'', ''in'', ''with'', ''for'', ''or'', ''and'', ''the'', ''a'', ''an'']"

text \<open>\<open>words.forEach(word => { cleaned = cleaned.replace(..., '') })\<close>.\<close>

definition removeWords :: "string list \<Rightarrow> string \<Rightarrow> string" where
  "removeWords ws cleaned = fold removeWord ws cleaned"

definition cleanQuery ::
  "string \<Rightarrow> priceConstraint list \<Rightarrow> string list \<Rightarrow> string list \<Rightarrow> attribute list \<Rightarrow> string" where
  "cleanQuery prompt priceConstraints brands colors attributes =
     (let cleaned = removeWords priceWords prompt;
          cleaned = removeAll symbolNumber cleaned;
          cleaned = removeAll numberSymbol cleaned;
          cleaned = removeWords brands cleaned;
          cleaned = removeWords colors cleaned;
          cleaned = removeWords (map snd attributes) cleaned;
          cleaned = removeWords filterWords cleaned
      in trim cleaned)"

text \<open>
  \<open>cleanedQuery.split(/\s+/).filter(word => word.length > 2)
     .filter(word => !/^\d+$/.test(word))\<close>.
\<close>

definition extractMeaningfulKeywords :: "string \<Rightarrow> string list" where
  "extractMeaningfulKeywords cleanedQuery =
     filter (\<lambda>word. \<not> (word \<noteq> [] \<and> list_all isDigit word))
       (filter (\<lambda>word. length word > 2) (splitSpace cleanedQuery))"

record queryAnalysis =
  qa_coreQuery :: string
  qa_keywords :: "string list"
  qa_priceConstraints :: "priceConstraint list"
  qa_brands :: "string list"
  qa_categories :: "string list"
  qa_colors :: "string list"
  qa_attributes :: "attribute list"
  qa_requiredCriteria :: "criterion list"
  qa_hasPrice :: bool
  qa_hasBrand :: bool
  qa_hasColor :: bool
  qa_hasAttributes :: bool

definition analyzeQuery :: "string \<Rightarrow> queryAnalysis" where
  "analyzeQuery userPrompt =
     (let prompt = toLowerCase userPrompt;
          priceConstraints = extractPriceConstraints prompt;
          brands = extractBrands prompt;
          cats = extractCategories prompt;
          colors = extractColors prompt;
          attributes = extractAttributes prompt;
          cleanedQuery = cleanQuery prompt priceConstraints brands colors attributes;
          kws = extractMeaningfulKeywords cleanedQuery
      in \<lparr>qa_coreQuery = cleanedQuery,
          qa_keywords = kws,
          qa_priceConstraints = priceConstraints,
          qa_brands = brands,
          qa_categories = cats,
          qa_colors = colors,
          qa_attributes = attributes,
          qa_requiredCriteria = identifyRequiredCriteria kws colors attributes brands priceConstraints,
          qa_hasPrice = (length priceConstraints > 0),
          qa_hasBrand = (length brands > 0),
          qa_hasColor = (length colors > 0),
          qa_hasAttributes = (length attributes > 0)\<rparr>)"

subsection \<open>Sub-scores\<close>

text \<open>The number of elements of a list that pass a test: \<open>xs.filter(p).length\<close>.\<close>

definition countWhere :: "('a \<Rightarrow> bool) \<Rightarrow> 'a list \<Rightarrow> nat" where
  "countWhere p xs = length (filter p xs)"

definition calculateKeywordScore :: "string \<Rightarrow> string list \<Rightarrow> real" where
  "calculateKeywordScore productText kws =
     (if length kws = 0 then 0
      else real (countWhere (\<lambda>keyword. js_includes productText keyword) kws) / real (length kws))"

text \<open>
  The \<open>filter\<close> of \<open>calculateExactScore\<close> builds one expression per keyword; the first
  pattern the engine rejects ends the call with its error.
\<close>

fun exactMatches :: "hostRegExp \<Rightarrow> string \<Rightarrow> string list \<Rightarrow> error + nat" where
  "exactMatches rx productText [] = Inr 0"
| "exactMatches rx productText (keyword # kws) =
     (case testKeyword rx keyword productText of
        Inl err \<Rightarrow> Inl err
      | Inr hit \<Rightarrow>
          (case exactMatches rx productText kws of
             Inl err \<Rightarrow> Inl err
           | Inr n \<Rightarrow> Inr (if hit then n + 1 else n)))"

definition calculateExactScore :: "hostRegExp \<Rightarrow> string \<Rightarrow> string list \<Rightarrow> error + real" where
  "calculateExactScore rx productText kws =
     (if length kws = 0 then Inr 0
      else (case exactMatches rx productText kws of
              Inl err \<Rightarrow> Inl err
            | Inr n \<Rightarrow> Inr (real n / real (length kws))))"

text \<open>\<open>s.replace(',', '.')\<close>: the first comma only.\<close>

fun replaceComma :: "string \<Rightarrow> string" where
  "replaceComma [] = []"
| "replaceComma (c # cs) = (if c = CHR '','' then CHR ''.'' # cs else c # replaceComma cs)"

definition priceOf :: "groups \<Rightarrow> real list" where
  "priceOf g =
     (case g of (g1, g2) \<Rightarrow>
        (case (case orElse g2 g1 of None \<Rightarrow> None | Some v \<Rightarrow> parseFloat (replaceComma v)) of
           None \<Rightarrow> []
         | Some v \<Rightarrow> [v]))"

definition extractPricesFromText :: "string \<Rightarrow> real list" where
  "extractPricesFromText s =
     concat (map (\<lambda>pattern. concat (map priceOf (execAll pattern s))) [symbolNumber, numberSymbol])"

definition checkPriceConstraint :: "real \<Rightarrow> priceConstraint \<Rightarrow> bool" where
  "checkPriceConstraint price constraint =
     (if pcn_type constraint = Max then price \<le> pcn_value constraint
      else price \<ge> pcn_value constraint)"

text \<open>
  \<open>prices.some(price => priceConstraints.every(constraint =>
     this.checkPriceConstraint(price, constraint)))\<close>.
\<close>

definition somePriceFits :: "real list \<Rightarrow> priceConstraint list \<Rightarrow> bool" where
  "somePriceFits prices priceConstraints =
     list_ex (\<lambda>price. list_all (\<lambda>constraint. checkPriceConstraint price constraint) priceConstraints)
       prices"

definition calculatePriceScore :: "string \<Rightarrow> priceConstraint list \<Rightarrow> real" where
  "calculatePriceScore productText priceConstraints =
     (if length priceConstraints = 0 then 1
      else (let prices = extractPricesFromText productText
            in if length prices = 0 then 0.5
               else if somePriceFits prices priceConstraints then 1 else 0))"

definition calculateBrandScore :: "string \<Rightarrow> string list \<Rightarrow> real" where
  "calculateBrandScore productText brands =
     (if length brands = 0 then 1
      else real (countWhere (\<lambda>brand. js_includes productText brand) brands) / real (length brands))"

definition calculateCategoryScore :: "string \<Rightarrow> string list \<Rightarrow> real" where
  "calculateCategoryScore productText cats = (if length cats = 0 then 1 else 1)"

text \<open>
  The colours, brands and attribute values of a query are words of the fixed
  vocabularies, so the expressions built from them are those of \<open>testWord\<close>.
\<close>

definition calculateColorScore :: "string \<Rightarrow> string list \<Rightarrow> real" where
  "calculateColorScore productText colors =
     (if length colors = 0 then 1
      else real (countWhere (\<lambda>color. testWord color productText) colors) / real (length colors))"

definition calculateAttributeScore :: "string \<Rightarrow> attribute list \<Rightarrow> real" where
  "calculateAttributeScore productText attributes =
     (if length attributes = 0 then 1
      else real (countWhere (\<lambda>attr. testWord (snd attr) productText) attributes)
           / real (length attributes))"

definition calculateSemanticSimilarity :: "string \<Rightarrow> string \<Rightarrow> real" where
  "calculateSemanticSimilarity text1 text2 =
     (let words1 = filter (\<lambda>w. length w > 2) (splitNonWord (toLowerCase text1));
          words2 = filter (\<lambda>w. length w > 2) (splitNonWord (toLowerCase text2));
          commonWords = filter (\<lambda>word. word \<in> set words2) words1;
          totalWords = length (remdups (words1 @ words2))
      in real (length commonWords) / real (max totalWords 1))"

text \<open>\<open>getAdaptiveWeights\<close>: the table \<open>baseWeights\<close> after the four adjustments.\<close>

definition setWeight :: "string \<Rightarrow> real \<Rightarrow> (string \<times> real) list \<Rightarrow> (string \<times> real) list" where
  "setWeight key w table = map (\<lambda>(k, v). if k = key then (k, w) else (k, v)) table"

definition getAdaptiveWeights :: "queryAnalysis \<Rightarrow> (string \<times> real) list" where
  "getAdaptiveWeights qa =
     (let baseWeights = [(''keyword'', 0.25), (''exact'', 0.2), (''semantic'', 0.15), (''price'', 0.05),
                         (''brand'', 0.05), (''category'', 0.05), (''color'', 0.15),
                         (''attributes'', 0.1)];
          baseWeights = (if qa_hasPrice qa
                         then setWeight ''keyword'' 0.2 (setWeight ''price'' 0.15 baseWeights)
                         else baseWeights);
          baseWeights = (if qa_hasBrand qa
                         then setWeight ''keyword'' 0.2 (setWeight ''brand'' 0.15 baseWeights)
                         else baseWeights);
          baseWeights = (if qa_hasColor qa
                         then setWeight ''keyword'' 0.2 (setWeight ''color'' 0.2 baseWeights)
                         else baseWeights);
          baseWeights = (if qa_hasAttributes qa
                         then setWeight ''keyword'' 0.2 (setWeight ''attributes'' 0.15 baseWeights)
                         else baseWeights)
      in baseWeights)"

text \<open>
  \<open>Object.entries(weights).reduce((total, [key, weight]) =>
     total + (scores[key] || 0) * weight, 0)\<close>.
\<close>

definition combineScores :: "(string \<times> real) list \<Rightarrow> (string \<times> real) list \<Rightarrow> real" where
  "combineScores scores table =
     foldl (\<lambda>total (key, weight).
              total + (case map_of scores key of None \<Rightarrow> 0 | Some v \<Rightarrow> v) * weight)
           0 table"

text \<open>\<open>highPerformingKeywords\<close> is the list loaded from the settings.\<close>

definition calculateHighPerformingBoost :: "string list \<Rightarrow> string list \<Rightarrow> real" where
  "calculateHighPerformingBoost highPerformingKeywords kws =
     real (countWhere (\<lambda>keyword. keyword \<in> set highPerformingKeywords) kws) * 0.05"

subsection \<open>Hard requirements\<close>

text \<open>\<open>Math.max(1, Math.ceil(n * 0.5))\<close>.\<close>

definition keywordThreshold :: "nat \<Rightarrow> nat" where
  "keywordThreshold n = max 1 ((n + 1) div 2)"

text \<open>The test of one keyword in \<open>checkCoreRequirements\<close>; \<open>keyword.slice(0, -1)\<close> is \<open>butlast\<close>.\<close>

definition keywordMatches :: "string \<Rightarrow> string \<Rightarrow> bool" where
  "keywordMatches productLower keyword =
     (js_includes productLower keyword
      \<or> js_includes productLower (keyword @ ''s'')
      \<or> js_includes productLower (butlast keyword)
      \<or> (keyword = ''sneakers'' \<and> js_includes productLower ''sneaker'')
      \<or> (keyword = ''sneaker'' \<and> js_includes productLower ''sneakers''))"

definition checkCoreRequirements :: "string \<Rightarrow> queryAnalysis \<Rightarrow> bool" where
  "checkCoreRequirements productText qa =
     (let productLower = toLowerCase productText
      in if length (qa_keywords qa) > 0
            \<and> countWhere (keywordMatches productLower) (qa_keywords qa)
                < keywordThreshold (length (qa_keywords qa))
         then False
         else if length (qa_colors qa) > 0
                 \<and> \<not> list_ex (\<lambda>color. testWord color productText) (qa_colors qa)
         then False
         else if length (qa_brands qa) > 0
                 \<and> \<not> list_ex (\<lambda>brand. testWord brand productText) (qa_brands qa)
         then False
         else if length (qa_priceConstraints qa) > 0
         then (let prices = extractPricesFromText productText
               in if length prices = 0 then True
                  else if \<not> somePriceFits prices (qa_priceConstraints qa) then False
                  else True)
         else True)"

text \<open>
  \<open>checkAllRequiredCriteria\<close>: the list \<open>missing\<close>, \<open>allRequired\<close> and \<open>satisfied\<close>.
  \<open>calculateMatchScore\<close> only logs it.
\<close>

definition checkAllRequiredCriteria :: "string \<Rightarrow> queryAnalysis \<Rightarrow> bool \<times> string list \<times> int" where
  "checkAllRequiredCriteria productText qa =
     (let productLower = toLowerCase productText;
          missing =
            map (\<lambda>keyword. ''keyword:'' @ keyword)
              (filter (\<lambda>keyword. \<not> js_includes productLower keyword) (qa_keywords qa))
            @ map (\<lambda>color. ''color:'' @ color)
                (filter (\<lambda>color. \<not> testWord color productText) (qa_colors qa))
            @ map (\<lambda>brand. ''brand:'' @ brand)
                (filter (\<lambda>brand. \<not> testWord brand productText) (qa_brands qa))
            @ (if length (qa_priceConstraints qa) > 0
               then (let prices = extractPricesFromText productText
                     in if length prices = 0 then [''price:no_price_found'']
                        else if \<not> somePriceFits prices (qa_priceConstraints qa)
                        then [''price:constraint_not_met'']
                        else [])
               else [])
            @ map (\<lambda>attr. ''attribute:'' @ snd attr)
                (filter (\<lambda>attr. \<not> testWord (snd attr) productText) (qa_attributes qa))
      in (length missing = 0, missing,
          int (length (qa_keywords qa)) + int (length (qa_colors qa)) + int (length (qa_brands qa))
          + int (length (qa_attributes qa)) - int (length missing)))"

subsection \<open>The match score\<close>

text \<open>The simple matching used when the analysis extracts no criterion.\<close>

definition simpleMatchScore :: "string \<Rightarrow> string \<Rightarrow> real" where
  "simpleMatchScore productLower userPrompt =
     (let promptWords = filter (\<lambda>word. length word > 2) (splitSpace (toLowerCase userPrompt));
          found = countWhere (\<lambda>word. js_includes productLower word) promptWords;
          simpleScore = real found / real (max (length promptWords) 1)
      in if simpleScore > 0.5 then simpleScore else 0)"

text \<open>The object \<open>scores\<close>; the exact score can end the call with an error.\<close>

definition subScores ::
  "hostRegExp \<Rightarrow> string \<Rightarrow> queryAnalysis \<Rightarrow> error + (string \<times> real) list" where
  "subScores rx productText qa =
     (let productLower = toLowerCase productText
      in case calculateExactScore rx productLower (qa_keywords qa) of
           Inl err \<Rightarrow> Inl err
         | Inr exact \<Rightarrow>
             Inr [(''keyword'', calculateKeywordScore productLower (qa_keywords qa)),
                  (''exact'', exact),
                  (''semantic'', calculateSemanticSimilarity productText (qa_coreQuery qa)),
                  (''price'', calculatePriceScore productText (qa_priceConstraints qa)),
                  (''brand'', calculateBrandScore productLower (qa_brands qa)),
                  (''category'', calculateCategoryScore productLower (qa_categories qa)),
                  (''color'', calculateColorScore productLower (qa_colors qa)),
                  (''attributes'', calculateAttributeScore productLower (qa_attributes qa))])"

text \<open>The body of the \<open>try\<close> block of \<open>calculateMatchScore\<close>.\<close>

definition calculateMatchScore_try ::
  "hostRegExp \<Rightarrow> string list \<Rightarrow> string \<Rightarrow> string \<Rightarrow> error + real" where
  "calculateMatchScore_try rx highPerformingKeywords productText userPrompt =
     (let qa = analyzeQuery userPrompt;
          productLower = toLowerCase productText;
          criteriaSatisfied = checkAllRequiredCriteria productText qa
      in if length (qa_keywords qa) = 0 \<and> length (qa_colors qa) = 0
            \<and> length (qa_brands qa) = 0 \<and> length (qa_priceConstraints qa) = 0
         then Inr (simpleMatchScore productLower userPrompt)
         else if \<not> checkCoreRequirements productText qa then Inr 0
         else (case subScores rx productText qa of
                 Inl err \<Rightarrow> Inl err
               | Inr scores \<Rightarrow>
                   (let baseScore = combineScores scores (getAdaptiveWeights qa);
                        highPerformingBoost =
                          calculateHighPerformingBoost highPerformingKeywords (qa_keywords qa)
                    in Inr (min (baseScore + highPerformingBoost) 1.0))))"

text \<open>\<open>calculateMatchScore\<close>: the \<open>catch\<close> block answers an error with 0.\<close>

definition calculateMatchScore :: "hostRegExp \<Rightarrow> string list \<Rightarrow> string \<Rightarrow> string \<Rightarrow> real" where
  "calculateMatchScore rx highPerformingKeywords productText userPrompt =
     (case calculateMatchScore_try rx highPerformingKeywords productText userPrompt of
        Inl err \<Rightarrow> 0
      | Inr score \<Rightarrow> score)"

section \<open>Properties of the chunking pipeline\<close>

lemma length_trim_le: "length (trim s) \<le> length s"
proof -
  have "length (trim s) \<le> length (dropWhile isSpace s)"
    unfolding trim_def by (simp add: length_dropWhile_le [of isSpace "rev (dropWhile isSpace s)", simplified])
  also have "\<dots> \<le> length s"
    by (rule length_dropWhile_le)
  finally show ?thesis .
qed

lemma trim_empty_iff: "trim s = [] \<longleftrightarrow> (\<forall>c\<in>set s. isSpace c)"
proof
  assume "trim s = []"
  then have all: "\<forall>c\<in>set (dropWhile isSpace s). isSpace c"
    by (simp add: trim_def dropWhile_eq_Nil_conv)
  have "dropWhile isSpace s = []"
  proof (rule ccontr)
    assume ne: "dropWhile isSpace s \<noteq> []"
    then have "\<not> isSpace (hd (dropWhile isSpace s))"
      by (rule hd_dropWhile)
    moreover have "hd (dropWhile isSpace s) \<in> set (dropWhile isSpace s)"
      using ne by simp
    ultimately show False using all by blast
  qed
  then show "\<forall>c\<in>set s. isSpace c"
    by (simp add: dropWhile_eq_Nil_conv)
next
  assume "\<forall>c\<in>set s. isSpace c"
  then have "dropWhile isSpace s = []"
    by (simp add: dropWhile_eq_Nil_conv)
  then show "trim s = []"
    unfolding trim_def by (simp only: rev.simps dropWhile.simps)
qed

lemma window_less_iff:
  assumes "0 < step"
  shows "k < windowCount text step \<longleftrightarrow> k * step < length text"
proof -
  have "k < windowCount text step \<longleftrightarrow> Suc k \<le> (length text + step - 1) div step"
    by (simp add: windowCount_def less_eq_Suc_le)
  also have "\<dots> \<longleftrightarrow> Suc k * step \<le> length text + step - 1"
    using assms by (simp add: less_eq_div_iff_mult_less_eq)
  also have "\<dots> \<longleftrightarrow> k * step < length text"
    using assms by auto
  finally show ?thesis .
qed

lemma chunkLoop_windows:
  assumes "0 < limit - ov"
  shows "chunkLoop text limit ov (k * (limit - ov)) acc =
         Some (acc @ filter (\<lambda>c. c \<noteq> [])
                 (map (\<lambda>j. trim (window text limit (limit - ov) j))
                    [k..<windowCount text (limit - ov)]))"
proof (induction "windowCount text (limit - ov) - k" arbitrary: k acc)
  case 0
  then have "\<not> k < windowCount text (limit - ov)" by simp
  then have "\<not> k * (limit - ov) < length text"
    using assms by (simp add: window_less_iff)
  then show ?case
    using 0 by (subst chunkLoop.simps) simp
next
  case (Suc n)
  then have lt: "k < windowCount text (limit - ov)" by simp
  then have i: "k * (limit - ov) < length text"
    using assms by (simp add: window_less_iff)
  have n: "n = windowCount text (limit - ov) - Suc k"
    using Suc.hyps(2) by simp
  have step: "k * (limit - ov) + (limit - ov) = Suc k * (limit - ov)"
    by simp
  show ?case
    apply (subst chunkLoop.simps)
    apply (simp only: i if_True Let_def step Suc.hyps(1) [OF n])
    apply (simp add: upt_conv_Cons [OF lt] window_def)
    done
qed

lemma splitIntoChunks_windows:
  assumes "0 < limit"
  shows "splitIntoChunks text limit =
         Some (filter (\<lambda>c. c \<noteq> [])
                 (map (\<lambda>j. trim (window text limit (limit - limit div 5) j))
                    [0..<windowCount text (limit - limit div 5)]))"
proof -
  have "0 < limit - limit div 5"
    using assms by simp
  from chunkLoop_windows [OF this, of "text" 0 "[]"] show ?thesis
    by (simp add: splitIntoChunks_def)
qed


lemma window_take_drop: "window text limit step k = take limit (drop (k * step) text)"
  by (simp only: window_def substring_def add_diff_cancel_left')

lemma window_overlap:
  assumes "40 \<le> length (window text 200 160 (Suc k))"
  shows "overlapBy 40 (window text 200 160 k) (window text 200 160 (Suc k))"
proof -
  have len: "160 * k + 200 \<le> length text"
    using assms by (simp add: window_take_drop)
  then have lk: "length (window text 200 160 k) = 200"
    by (simp add: window_take_drop)
  have "drop 160 (window text 200 160 k) = take 40 (drop (160 + k * 160) text)"
    by (simp add: window_take_drop drop_take)
  moreover have "take 40 (window text 200 160 (Suc k)) = take 40 (drop (160 + k * 160) text)"
    by (simp add: window_take_drop)
  ultimately show ?thesis
    using assms lk by (simp add: overlapBy_def)
qed

lemma first_window_nonblank:
  assumes "text \<noteq> []" "\<not> isSpace (hd text)"
  shows "trim (window text 200 160 0) \<noteq> []"
proof -
  have "hd text \<in> set (take 200 text)"
    using assms(1) by (cases "text") simp_all
  then show ?thesis
    using assms(2) by (auto simp: trim_empty_iff window_take_drop)
qed

lemma last_window_nonblank:
  assumes "text \<noteq> []" "\<not> isSpace (last text)" "windowCount text 160 = Suc m"
  shows "trim (window text 200 160 m) \<noteq> []"
proof -
  have "m < windowCount text 160"
    using assms(3) by simp
  then have lo: "m * 160 < length text"
    by (simp add: window_less_iff)
  have "\<not> Suc m < windowCount text 160"
    using assms(3) by simp
  then have hi: "length text \<le> Suc m * 160"
    by (simp add: window_less_iff)
  have "window text 200 160 m = drop (m * 160) text"
    using hi by (simp add: window_take_drop)
  moreover have "last (drop (m * 160) text) = last text"
    using lo by (simp add: last_drop)
  moreover have "drop (m * 160) text \<noteq> []"
    using lo by simp
  ultimately have "last text \<in> set (window text 200 160 m)"
    by (metis last_in_set)
  then show ?thesis
    using assms(2) by (auto simp: trim_empty_iff)
qed

lemma two_windows_kept:
  assumes "200 < length text" "\<not> isSpace (hd text)" "\<not> isSpace (last text)"
  shows "1 < length (filter (\<lambda>c. c \<noteq> [])
           (map (\<lambda>j. trim (window text 200 160 j)) [0..<windowCount text 160]))"
proof -
  have ne: "text \<noteq> []"
    using assms(1) by auto
  have "Suc 0 < windowCount text 160"
    using assms(1) by (simp add: window_less_iff)
  then obtain m where m: "windowCount text 160 = Suc (Suc m)"
    by (auto dest: less_imp_Suc_add)
  define rest where "rest = [Suc 0..<Suc m]"
  have split: "[0..<windowCount text 160] = 0 # rest @ [Suc m]"
    by (simp add: m rest_def upt_conv_Cons)
  have a: "trim (window text 200 160 0) \<noteq> []"
    using ne assms(2) by (rule first_window_nonblank)
  have b: "trim (window text 200 160 (Suc m)) \<noteq> []"
    using ne assms(3) m by (rule last_window_nonblank)
  show ?thesis
    by (simp only: split) (simp add: a b)
qed

lemma descriptionContents_append:
  "descriptionContents (cs @ ds) = descriptionContents cs @ descriptionContents ds"
  by (simp add: descriptionContents_def)

lemma descriptionContents_addEmbedding:
  "descriptionContents (map (addEmbedding env) (enumerate n cs)) = descriptionContents cs"
  by (induction cs arbitrary: n) (simp_all add: descriptionContents_def addEmbedding_def)

lemma descriptionContents_titleBrand: "descriptionContents (titleBrandChunks context pid) = []"
  by (simp add: descriptionContents_def titleBrandChunks_def bareChunk_def)

lemma descriptionContents_attributes: "descriptionContents (attributeChunks context pid) = []"
  by (simp add: descriptionContents_def attributeChunks_def bareChunk_def Let_def)

lemma descriptionContents_windows:
  "descriptionContents
     (map (\<lambda>(index, c). bareChunk pid Description c (Some index) md) (enumerate n textChunks))
   = textChunks"
  by (induction textChunks arbitrary: n) (simp_all add: descriptionContents_def bareChunk_def)

lemma titleBrand_emitted:
  assumes "pc_title context \<noteq> []"
  shows "\<exists>c\<in>set (map (addEmbedding env)
            (enumerate 0 (titleBrandChunks context pid @ rest))). ch_type c = TitleBrand"
  using assms by (simp add: titleBrandChunks_def bareChunk_def addEmbedding_def)


lemma chunkProductInfo_description:
  assumes "chunkProductInfo env context pid = Some chunks"
  shows "\<exists>ds. descriptionChunks (env_chunkSize env) context pid = Some ds
           \<and> descriptionContents chunks = descriptionContents ds
           \<and> chunks = map (addEmbedding env)
                 (enumerate 0 (titleBrandChunks context pid @ attributeChunks context pid @ ds))"
proof (cases "descriptionChunks (env_chunkSize env) context pid")
  case None
  then show ?thesis
    using assms by (simp add: chunkProductInfo_def)
next
  case (Some ds)
  then have "chunks = map (addEmbedding env)
      (enumerate 0 (titleBrandChunks context pid @ attributeChunks context pid @ ds))"
    using assms by (simp add: chunkProductInfo_def)
  then show ?thesis
    using Some
    by (simp add: descriptionContents_addEmbedding descriptionContents_append
        descriptionContents_titleBrand descriptionContents_attributes)
qed

lemma descriptionChunks_long:
  assumes "200 < length (pc_fullText context)"
  shows "\<exists>ds. descriptionChunks 200 context pid = Some ds
           \<and> descriptionContents ds =
               filter (\<lambda>c. c \<noteq> [])
                 (map (\<lambda>k. trim (window (pc_fullText context) 200 160 k))
                    [0..<windowCount (pc_fullText context) 160])"
proof -
  have ne: "pc_fullText context \<noteq> []"
    using assms by auto
  show ?thesis
    using assms ne splitIntoChunks_windows [of 200 "pc_fullText context"]
    by (simp add: descriptionChunks_def descriptionContents_windows)
qed

lemma descriptionChunks_total:
  "\<exists>ds. descriptionChunks 200 context pid = Some ds"
proof (cases "200 < length (pc_fullText context)")
  case True
  then show ?thesis
    using descriptionChunks_long [of "context" pid] by blast
next
  case False
  then show ?thesis
    by (simp add: descriptionChunks_def)
qed

text \<open>
  C7, as the code has it, for the chunk size 200 of the constructor. \<open>chunkProductInfo\<close>
  returns, and emits a \<open>title_brand\<close> chunk whenever the title is non-empty. When the full
  text is longer than 200 characters, the description chunks are the trimmed windows of
  200 characters taken every 160 characters, the blank windows left out; each is at most
  200 characters long; window \<open>k\<close> ends with the 40 characters that window \<open>k + 1\<close>
  starts with whenever window \<open>k + 1\<close> has 40 characters; and more than one description
  chunk is emitted when the text starts and ends with a character that is not whitespace,
  as the text of a captured product does.
\<close>

theorem chunkProductInfo_chunks_amended:
  assumes "env_chunkSize env = 200"
  shows "\<exists>chunks. chunkProductInfo env context pid = Some chunks
     \<and> (pc_title context \<noteq> [] \<longrightarrow> (\<exists>c\<in>set chunks. ch_type c = TitleBrand))
     \<and> (200 < length (pc_fullText context) \<longrightarrow>
          descriptionContents chunks =
            filter (\<lambda>c. c \<noteq> [])
              (map (\<lambda>k. trim (window (pc_fullText context) 200 160 k))
                 [0..<windowCount (pc_fullText context) 160])
          \<and> (\<forall>d\<in>set (descriptionContents chunks). length d \<le> 200)
          \<and> (\<forall>k. 40 \<le> length (window (pc_fullText context) 200 160 (Suc k)) \<longrightarrow>
                 overlapBy 40 (window (pc_fullText context) 200 160 k)
                   (window (pc_fullText context) 200 160 (Suc k)))
          \<and> (\<not> isSpace (hd (pc_fullText context)) \<and> \<not> isSpace (last (pc_fullText context)) \<longrightarrow>
                 1 < length (descriptionContents chunks)))"
proof -
  obtain ds where ds: "descriptionChunks 200 context pid = Some ds"
    using descriptionChunks_total by blast
  define chunks where "chunks = map (addEmbedding env)
      (enumerate 0 (titleBrandChunks context pid @ attributeChunks context pid @ ds))"
  have run: "chunkProductInfo env context pid = Some chunks"
    using assms ds by (simp add: chunkProductInfo_def chunks_def)
  have contents: "descriptionContents chunks = descriptionContents ds"
    unfolding chunks_def
    by (simp add: descriptionContents_addEmbedding descriptionContents_append
        descriptionContents_titleBrand descriptionContents_attributes)
  have tb: "\<exists>c\<in>set chunks. ch_type c = TitleBrand" if "pc_title context \<noteq> []"
    unfolding chunks_def using that by (rule titleBrand_emitted)
  have long: "descriptionContents chunks =
            filter (\<lambda>c. c \<noteq> [])
              (map (\<lambda>k. trim (window (pc_fullText context) 200 160 k))
                 [0..<windowCount (pc_fullText context) 160])"
    if "200 < length (pc_fullText context)"
    using descriptionChunks_long [OF that, of pid] ds contents by simp
  have short: "length d \<le> 200"
    if "200 < length (pc_fullText context)" "d \<in> set (descriptionContents chunks)" for d
  proof -
    from that obtain k where "d = trim (window (pc_fullText context) 200 160 k)"
      by (auto simp: long)
    moreover have "length (window (pc_fullText context) 200 160 k) \<le> 200"
      by (simp add: window_take_drop)
    ultimately show ?thesis
      using length_trim_le [of "window (pc_fullText context) 200 160 k"] by simp
  qed
  have many: "1 < length (descriptionContents chunks)"
    if "200 < length (pc_fullText context)" "\<not> isSpace (hd (pc_fullText context))"
       "\<not> isSpace (last (pc_fullText context))"
    using two_windows_kept [OF that] long [OF that(1)] by simp
  show ?thesis
    using run tb long short many window_overlap by blast
qed

theorem chunkProductInfo_chunks_amended_witness:
  "\<exists>chunks. chunkProductInfo
       \<lparr>env_model = None, env_chunkSize = 200, env_now = (\<lambda>n. n), env_hostname = ''shop''\<rparr>
       \<lparr>pc_title = ''a'', pc_brand = [], pc_price = [], pc_description = [],
        pc_productType = ''unknown'', pc_colors = [], pc_materials = [], pc_style = [],
        pc_gender = ''unisex'', pc_fullText = replicate 321 (CHR ''a'')\<rparr> ''1'' = Some chunks
     \<and> (\<exists>c\<in>set chunks. ch_type c = TitleBrand)
     \<and> list_all (\<lambda>d. length d \<le> 200) (descriptionContents chunks)
     \<and> overlapBy 40 (window (replicate 321 (CHR ''a'')) 200 160 0)
           (window (replicate 321 (CHR ''a'')) 200 160 (Suc 0))
     \<and> 1 < length (descriptionContents chunks)"
proof -
  have sp: "\<not> isSpace (CHR ''a'')"
    by (simp add: isSpace_def code_def)
  have w: "40 \<le> length (window (replicate 321 (CHR ''a'')) 200 160 (Suc 0))"
    by (simp add: window_take_drop)
  show ?thesis
    using chunkProductInfo_chunks_amended
      [of "\<lparr>env_model = None, env_chunkSize = 200, env_now = (\<lambda>n. n), env_hostname = ''shop''\<rparr>"
          "\<lparr>pc_title = ''a'', pc_brand = [], pc_price = [], pc_description = [],
        pc_productType = ''unknown'', pc_colors = [], pc_materials = [], pc_style = [],
        pc_gender = ''unisex'', pc_fullText = replicate 321 (CHR ''a'')\<rparr>" "''1''"]
      sp w
    by (simp add: list_all_iff) blast
qed

text \<open>
  C7, as the claim states it, fails: a text of 321 letters is split into chunks of 200, 161
  and 1 characters, and the last chunk is too short to share 40 characters with the one
  before it.
\<close>

theorem chunkProductInfo_overlap_counterexample:
  "\<not> (\<exists>chunks. chunkProductInfo
       \<lparr>env_model = None, env_chunkSize = 200, env_now = (\<lambda>n. n), env_hostname = ''shop''\<rparr>
       \<lparr>pc_title = ''a'', pc_brand = [], pc_price = [], pc_description = [],
        pc_productType = ''unknown'', pc_colors = [], pc_materials = [], pc_style = [],
        pc_gender = ''unisex'', pc_fullText = replicate 321 (CHR ''a'')\<rparr> ''1'' = Some chunks
     \<and> (\<exists>c\<in>set chunks. ch_type c = TitleBrand)
     \<and> 1 < length (descriptionContents chunks)
     \<and> list_all (\<lambda>d. length d \<le> 200) (descriptionContents chunks)
     \<and> consecutiveOverlap 40 (descriptionContents chunks))"
proof
  let ?env = "\<lparr>env_model = None, env_chunkSize = 200, env_now = (\<lambda>n. n), env_hostname = ''shop''\<rparr>"
  let ?ctx = "\<lparr>pc_title = ''a'', pc_brand = [], pc_price = [], pc_description = [],
        pc_productType = ''unknown'', pc_colors = [], pc_materials = [], pc_style = [],
        pc_gender = ''unisex'', pc_fullText = replicate 321 (CHR ''a'')\<rparr>"
  assume "\<exists>chunks. chunkProductInfo ?env ?ctx ''1'' = Some chunks
     \<and> (\<exists>c\<in>set chunks. ch_type c = TitleBrand)
     \<and> 1 < length (descriptionContents chunks)
     \<and> list_all (\<lambda>d. length d \<le> 200) (descriptionContents chunks)
     \<and> consecutiveOverlap 40 (descriptionContents chunks)"
  then obtain chunks where run: "chunkProductInfo ?env ?ctx ''1'' = Some chunks"
    and ov: "consecutiveOverlap 40 (descriptionContents chunks)"
    by blast
  from chunkProductInfo_description [OF run] obtain ds
    where ds: "descriptionChunks 200 ?ctx ''1'' = Some ds"
      and eq: "descriptionContents chunks = descriptionContents ds"
    by auto
  have "200 < length (pc_fullText ?ctx)"
    by simp
  from descriptionChunks_long [OF this, of "''1''"] ds
  have windows: "descriptionContents ds =
      filter (\<lambda>c. c \<noteq> [])
        (map (\<lambda>k. trim (window (replicate 321 (CHR ''a'')) 200 160 k))
           [0..<windowCount (replicate 321 (CHR ''a'')) 160])"
    by simp
  have "\<not> consecutiveOverlap 40
      (filter (\<lambda>c. c \<noteq> [])
        (map (\<lambda>k. trim (window (replicate 321 (CHR ''a'')) 200 160 k))
           [0..<windowCount (replicate 321 (CHR ''a'')) 160]))"
    by code_simp
  then show False
    using windows eq ov by simp
qed
section \<open>Properties of the cosine similarity\<close>

subsection \<open>Rounding to binary64\<close>

lemma roundHalfEven_error: "\<bar>of_int (roundHalfEven r) - r\<bar> \<le> 1 / 2"
  unfolding roundHalfEven_def Let_def by (auto simp: abs_le_iff)

lemma roundHalfEven_eqI:
  assumes "\<bar>r - of_int m\<bar> < 1 / 2"
  shows "roundHalfEven r = m"
proof -
  have "\<lfloor>r\<rfloor> = m \<or> \<lfloor>r\<rfloor> = m - 1"
  proof (cases "of_int m \<le> r")
    case True
    then have "\<lfloor>r\<rfloor> = m"
      using assms by (intro floor_unique) (simp_all add: abs_less_iff)
    then show ?thesis ..
  next
    case False
    then have "\<lfloor>r\<rfloor> = m - 1"
      using assms by (intro floor_unique) (simp_all add: abs_less_iff)
    then show ?thesis ..
  qed
  then show ?thesis
  proof
    assume f: "\<lfloor>r\<rfloor> = m"
    then have "r - of_int m < 1 / 2"
      using assms by linarith
    then show ?thesis
      by (simp add: roundHalfEven_def f)
  next
    assume f: "\<lfloor>r\<rfloor> = m - 1"
    have "1 / 2 < r - (of_int m - 1)"
      using assms by linarith
    then have "1 / 2 < r - of_int (m - 1)"
      by simp
    then show ?thesis
      by (simp add: roundHalfEven_def f)
  qed
qed

lemma roundHalfEven_nonneg: "0 \<le> r \<Longrightarrow> 0 \<le> roundHalfEven r"
  unfolding roundHalfEven_def Let_def by (auto simp: zero_le_floor) 

lemma ulp_pos: "0 < ulp x"
  by (simp add: ulp_def)

lemma binade_le:
  assumes "x \<noteq> 0"
  shows "2 powr of_int (binade x) \<le> \<bar>x\<bar>"
proof -
  have "of_int (binade x) \<le> log 2 \<bar>x\<bar>"
    by (simp add: binade_def)
  then show ?thesis
    using assms by (simp add: le_log_iff)
qed

lemma binade_eqI:
  assumes "2 powr of_int e \<le> \<bar>x\<bar>" "\<bar>x\<bar> < 2 powr (of_int e + 1)"
  shows "binade x = e"
proof -
  have pos: "0 < \<bar>x\<bar>"
    using assms(1) by (smt (verit) powr_gt_zero)
  have "of_int e \<le> log 2 \<bar>x\<bar>"
    using assms(1) pos by (simp add: le_log_iff)
  moreover have "log 2 \<bar>x\<bar> < of_int e + 1"
    using assms(2) pos by (simp add: log_less_iff)
  ultimately show ?thesis
    unfolding binade_def by (intro floor_unique) simp_all
qed

lemma half_ulp_le:
  assumes "x \<noteq> 0"
  shows "ulp x / 2 \<le> unitRoundoff * \<bar>x\<bar>"
proof -
  have "ulp x / 2 = 2 powr of_int (binade x) * (1 / 2 ^ 53)"
    by (simp add: ulp_def powr_diff)
  also have "\<dots> \<le> \<bar>x\<bar> * (1 / 2 ^ 53)"
    using binade_le [OF assms] by (intro mult_right_mono) simp_all
  finally show ?thesis
    by (simp add: unitRoundoff_def mult.commute)
qed

lemma toDouble_error: "\<bar>toDouble x - x\<bar> \<le> unitRoundoff * \<bar>x\<bar>"
proof (cases "x = 0")
  case True
  then show ?thesis by (simp add: toDouble_def)
next
  case False
  have "toDouble x - x = (of_int (roundHalfEven (x / ulp x)) - x / ulp x) * ulp x"
    using ulp_pos [of x] False by (simp add: toDouble_def algebra_simps)
  then have "\<bar>toDouble x - x\<bar> = \<bar>of_int (roundHalfEven (x / ulp x)) - x / ulp x\<bar> * ulp x"
    using ulp_pos [of x] by (simp add: abs_mult)
  also have "\<dots> \<le> 1 / 2 * ulp x"
    using ulp_pos [of x] roundHalfEven_error [of "x / ulp x"]
    by (intro mult_right_mono) simp_all
  also have "\<dots> \<le> unitRoundoff * \<bar>x\<bar>"
    using half_ulp_le [OF False] by simp
  finally show ?thesis .
qed

lemma toDouble_zero: "toDouble 0 = 0"
  by (simp add: toDouble_def)

lemma toDouble_nonneg: "0 \<le> x \<Longrightarrow> 0 \<le> toDouble x"
  using ulp_pos [of x] roundHalfEven_nonneg [of "x / ulp x"]
  by (simp add: toDouble_def)

lemma toDouble_eqI:
  assumes "2 powr of_int e \<le> \<bar>x\<bar>" "\<bar>x\<bar> < 2 powr (of_int e + 1)"
    and "\<bar>x / 2 powr (of_int e - 52) - of_int m\<bar> < 1 / 2"
  shows "toDouble x = of_int m * 2 powr (of_int e - 52)"
proof -
  have b: "binade x = e"
    using assms(1,2) by (rule binade_eqI)
  have "x \<noteq> 0"
    using assms(1) by (smt (verit) powr_gt_zero)
  moreover have "roundHalfEven (x / 2 powr (of_int e - 52)) = m"
    using assms(3) by (rule roundHalfEven_eqI)
  ultimately show ?thesis
    by (simp add: toDouble_def ulp_def b)
qed

lemma unitRoundoff_bounds: "0 < unitRoundoff" "unitRoundoff < 1"
  by (simp_all add: unitRoundoff_def)

lemma toDouble_abs_le: "\<bar>toDouble x\<bar> \<le> (1 + unitRoundoff) * \<bar>x\<bar>"
proof -
  have "\<bar>toDouble x\<bar> \<le> \<bar>x\<bar> + \<bar>toDouble x - x\<bar>"
    by linarith
  also have "\<dots> \<le> \<bar>x\<bar> + unitRoundoff * \<bar>x\<bar>"
    using toDouble_error [of x] by simp
  finally show ?thesis
    by (simp add: algebra_simps)
qed

lemma toDouble_lower: "0 \<le> x \<Longrightarrow> (1 - unitRoundoff) * x \<le> toDouble x"
  using toDouble_error [of x] by (simp add: algebra_simps abs_le_iff)

lemma toDouble_upper: "0 \<le> x \<Longrightarrow> toDouble x \<le> (1 + unitRoundoff) * x"
  using toDouble_error [of x] by (simp add: algebra_simps abs_le_iff)

subsection \<open>Accumulated rounding in the loop\<close>

lemma cosineLoop_dotAcc:
  "cosineLoop vec1 vec2 n = (dotAcc vec1 vec2 n, dotAcc vec1 vec1 n, dotAcc vec2 vec2 n)"
  unfolding cosineLoop_def dotAcc_def by (induction n) simp_all

lemma dotAcc_Suc:
  "dotAcc vec1 vec2 (Suc n) = toDouble (dotAcc vec1 vec2 n + toDouble (vec1 ! n * vec2 ! n))"
  by (simp add: dotAcc_def)

lemma dotAcc_0: "dotAcc vec1 vec2 0 = 0"
  by (simp add: dotAcc_def)

lemma dotAcc_self_nonneg: "0 \<le> dotAcc v v n"
  by (induction n) (simp_all add: dotAcc_0 dotAcc_Suc toDouble_nonneg)

lemma dotAcc_bound:
  "\<bar>dotAcc v w n\<bar> \<le> (1 + unitRoundoff) ^ (2 * n) * (\<Sum>i<n. \<bar>v ! i * w ! i\<bar>)"
proof (induction n)
  case 0
  show ?case by (simp add: dotAcc_0)
next
  case (Suc n)
  define R where "R = 1 + unitRoundoff"
  define A where "A = (\<Sum>i<n. \<bar>v ! i * w ! i\<bar>)"
  define p where "p = \<bar>v ! n * w ! n\<bar>"
  have R: "1 \<le> R"
    using unitRoundoff_bounds by (simp add: R_def)
  have A: "0 \<le> A" and p: "0 \<le> p"
    by (simp_all add: A_def p_def sum_nonneg)
  have Rn: "1 \<le> R ^ (2 * n)"
    using R by simp
  have IH: "\<bar>dotAcc v w n\<bar> \<le> R ^ (2 * n) * A"
    using Suc.IH by (simp add: R_def A_def)
  have "\<bar>dotAcc v w (Suc n)\<bar> \<le> R * \<bar>dotAcc v w n + toDouble (v ! n * w ! n)\<bar>"
    unfolding dotAcc_Suc R_def by (rule toDouble_abs_le)
  also have "\<dots> \<le> R * (\<bar>dotAcc v w n\<bar> + \<bar>toDouble (v ! n * w ! n)\<bar>)"
    using R by (intro mult_left_mono) simp_all
  also have "\<dots> \<le> R * (R ^ (2 * n) * A + R * p)"
    using R IH toDouble_abs_le [of "v ! n * w ! n"]
    by (intro mult_left_mono add_mono) (simp_all add: R_def p_def)
  also have "\<dots> \<le> R * (R ^ (2 * n) * R * A + R ^ (2 * n) * R * p)"
  proof -
    have "R ^ (2 * n) * A \<le> R ^ (2 * n) * R * A"
      using R Rn A by (simp add: mult_left_mono mult_right_mono)
    moreover have "R * p \<le> R ^ (2 * n) * R * p"
      using R Rn p by (simp add: mult_right_mono)
    ultimately show ?thesis
      using R by (intro mult_left_mono add_mono) simp_all
  qed
  also have "\<dots> = R ^ (2 * Suc n) * (A + p)"
    by (simp add: algebra_simps power2_eq_square)
  finally show ?case
    by (simp add: R_def A_def p_def)
qed

lemma dotAcc_self_upper:
  "dotAcc v v n \<le> (1 + unitRoundoff) ^ (2 * n) * (\<Sum>i<n. v ! i * v ! i)"
proof -
  have "dotAcc v v n \<le> \<bar>dotAcc v v n\<bar>"
    by simp
  also have "\<dots> \<le> (1 + unitRoundoff) ^ (2 * n) * (\<Sum>i<n. \<bar>v ! i * v ! i\<bar>)"
    by (rule dotAcc_bound)
  finally show ?thesis
    by simp
qed

lemma dotAcc_self_lower:
  "(1 - unitRoundoff) ^ (2 * n) * (\<Sum>i<n. v ! i * v ! i) \<le> dotAcc v v n"
proof (induction n)
  case 0
  show ?case by (simp add: dotAcc_0)
next
  case (Suc n)
  define r where "r = 1 - unitRoundoff"
  define S where "S = (\<Sum>i<n. v ! i * v ! i)"
  define q where "q = v ! n * v ! n"
  have r: "0 \<le> r" "r \<le> 1"
    using unitRoundoff_bounds by (simp_all add: r_def)
  have S: "0 \<le> S" and q: "0 \<le> q"
    by (simp_all add: S_def q_def sum_nonneg)
  have rn: "0 \<le> r ^ (2 * n)" "r ^ (2 * n) \<le> 1"
    using r by (simp_all add: power_le_one)
  have IH: "r ^ (2 * n) * S \<le> dotAcc v v n"
    using Suc.IH by (simp add: r_def S_def)
  have tq: "r * q \<le> toDouble q"
    using q unfolding r_def by (rule toDouble_lower)
  have "r ^ (2 * Suc n) * (S + q) = r * (r ^ (2 * n) * r * S + r ^ (2 * n) * r * q)"
    by (simp add: algebra_simps power2_eq_square)
  also have "\<dots> \<le> r * (r ^ (2 * n) * S + r * q)"
  proof -
    have "r ^ (2 * n) * r * S \<le> r ^ (2 * n) * 1 * S"
      using r rn S by (intro mult_right_mono mult_left_mono) simp_all
    moreover have "r ^ (2 * n) * r * q \<le> 1 * r * q"
      using r rn q by (intro mult_right_mono) simp_all
    ultimately show ?thesis
      using r by (intro mult_left_mono add_mono) simp_all
  qed
  also have "\<dots> \<le> r * (dotAcc v v n + toDouble q)"
    using r IH tq by (intro mult_left_mono add_mono) simp_all
  also have "\<dots> \<le> toDouble (dotAcc v v n + toDouble q)"
    unfolding r_def
    by (rule toDouble_lower) (simp add: dotAcc_self_nonneg toDouble_nonneg q)
  finally show ?case
    by (simp add: r_def S_def q_def dotAcc_Suc)
qed

lemma two_dim_bound:
  fixes p q r s :: real
  assumes "0 \<le> p" "0 \<le> q"
  shows "p * q + \<bar>r\<bar> * \<bar>s\<bar> \<le> sqrt (p\<^sup>2 + r\<^sup>2) * sqrt (q\<^sup>2 + s\<^sup>2)"
proof -
  have "(p * q + \<bar>r\<bar> * \<bar>s\<bar>)\<^sup>2 + (p * \<bar>s\<bar> - q * \<bar>r\<bar>)\<^sup>2 = (p\<^sup>2 + r\<^sup>2) * (q\<^sup>2 + s\<^sup>2)"
    by (simp add: power2_eq_square algebra_simps)
  then have "(p * q + \<bar>r\<bar> * \<bar>s\<bar>)\<^sup>2 \<le> (p\<^sup>2 + r\<^sup>2) * (q\<^sup>2 + s\<^sup>2)"
    by (metis le_add_same_cancel1 zero_le_power2)
  then have "sqrt ((p * q + \<bar>r\<bar> * \<bar>s\<bar>)\<^sup>2) \<le> sqrt ((p\<^sup>2 + r\<^sup>2) * (q\<^sup>2 + s\<^sup>2))"
    by (rule real_sqrt_le_mono)
  moreover have "0 \<le> p * q + \<bar>r\<bar> * \<bar>s\<bar>"
    using assms by simp
  ultimately show ?thesis
    by (simp add: real_sqrt_mult)
qed

lemma dot_le_norms:
  fixes f g :: "nat \<Rightarrow> real"
  shows "(\<Sum>i<n. \<bar>f i * g i\<bar>) \<le> sqrt (\<Sum>i<n. f i * f i) * sqrt (\<Sum>i<n. g i * g i)"
proof (induction n)
  case 0
  show ?case by simp
next
  case (Suc n)
  let ?A = "\<Sum>i<n. f i * f i" and ?B = "\<Sum>i<n. g i * g i"
  have A: "0 \<le> ?A" and B: "0 \<le> ?B"
    by (simp_all add: sum_nonneg)
  have "(\<Sum>i<Suc n. \<bar>f i * g i\<bar>) = (\<Sum>i<n. \<bar>f i * g i\<bar>) + \<bar>f n\<bar> * \<bar>g n\<bar>"
    by (simp add: abs_mult)
  also have "\<dots> \<le> sqrt ?A * sqrt ?B + \<bar>f n\<bar> * \<bar>g n\<bar>"
    using Suc.IH by simp
  also have "\<dots> \<le> sqrt ((sqrt ?A)\<^sup>2 + (f n)\<^sup>2) * sqrt ((sqrt ?B)\<^sup>2 + (g n)\<^sup>2)"
    by (rule two_dim_bound) (simp_all add: A B)
  also have "\<dots> = sqrt (\<Sum>i<Suc n. f i * f i) * sqrt (\<Sum>i<Suc n. g i * g i)"
    using A B by (simp add: power2_eq_square)
  finally show ?case .
qed

lemma sqrt_scaled:
  assumes "0 \<le> r" "0 \<le> S"
  shows "sqrt (r ^ (2 * n) * S) = r ^ n * sqrt S"
proof -
  have "r ^ (2 * n) = (r ^ n)\<^sup>2"
    by (simp add: power_mult [symmetric] mult.commute)
  then show ?thesis
    using assms by (simp add: real_sqrt_mult)
qed

lemma cosineSimilarity_unfold:
  "cosineSimilarity v w =
     (let n = min (length v) (length w);
          norm1 = toDouble (sqrt (dotAcc v v n));
          norm2 = toDouble (sqrt (dotAcc w w n))
      in if norm1 = 0 \<or> norm2 = 0 then 0
         else toDouble (dotAcc v w n / toDouble (norm1 * norm2)))"
  by (simp add: cosineSimilarity_def cosineLoop_dotAcc Let_def)

lemma norm_lower:
  assumes "toDouble (sqrt (dotAcc v v n)) \<noteq> 0"
  shows "0 < (\<Sum>i<n. v ! i * v ! i)"
    and "(1 - unitRoundoff) ^ (n + 1) * sqrt (\<Sum>i<n. v ! i * v ! i)
           \<le> toDouble (sqrt (dotAcc v v n))"
proof -
  define r where "r = 1 - unitRoundoff"
  define S where "S = (\<Sum>i<n. v ! i * v ! i)"
  define a where "a = dotAcc v v n"
  have r: "0 \<le> r"
    using unitRoundoff_bounds by (simp add: r_def)
  have S: "0 \<le> S"
    by (simp add: S_def sum_nonneg)
  have a: "0 \<le> a"
    by (simp add: a_def dotAcc_self_nonneg)
  have "sqrt a \<noteq> 0"
    using assms by (auto simp: a_def toDouble_zero)
  then have apos: "0 < a"
    using a by (simp add: less_le)
  have up: "a \<le> (1 + unitRoundoff) ^ (2 * n) * S"
    unfolding a_def S_def by (rule dotAcc_self_upper)
  have "S \<noteq> 0"
    using up apos by auto
  then show "0 < (\<Sum>i<n. v ! i * v ! i)"
    using S by (simp add: S_def less_le)
  have lo: "r ^ (2 * n) * S \<le> a"
    unfolding a_def S_def r_def by (rule dotAcc_self_lower)
  have "r ^ (n + 1) * sqrt S = r * sqrt (r ^ (2 * n) * S)"
    using r S by (simp add: sqrt_scaled)
  also have "\<dots> \<le> r * sqrt a"
    using r lo by (intro mult_left_mono) simp_all
  also have "\<dots> \<le> toDouble (sqrt a)"
    unfolding r_def by (rule toDouble_lower) (simp add: a)
  finally show "(1 - unitRoundoff) ^ (n + 1) * sqrt (\<Sum>i<n. v ! i * v ! i)
           \<le> toDouble (sqrt (dotAcc v v n))"
    by (simp add: r_def S_def a_def)
qed

lemma cosine_bound_raw:
  "\<bar>cosineSimilarity v w\<bar>
     \<le> (1 + unitRoundoff) ^ (2 * min (length v) (length w) + 1)
        / (1 - unitRoundoff) ^ (2 * min (length v) (length w) + 3)"
proof -
  define n where "n = min (length v) (length w)"
  define r where "r = 1 - unitRoundoff"
  define R where "R = 1 + unitRoundoff"
  define d where "d = dotAcc v w n"
  define n1 where "n1 = toDouble (sqrt (dotAcc v v n))"
  define n2 where "n2 = toDouble (sqrt (dotAcc w w n))"
  define S1 where "S1 = (\<Sum>i<n. v ! i * v ! i)"
  define S2 where "S2 = (\<Sum>i<n. w ! i * w ! i)"
  define T where "T = sqrt S1 * sqrt S2"
  have r: "0 < r" and R: "1 \<le> R"
    using unitRoundoff_bounds by (simp_all add: r_def R_def)
  have cs: "cosineSimilarity v w =
      (if n1 = 0 \<or> n2 = 0 then 0 else toDouble (d / toDouble (n1 * n2)))"
    by (simp add: cosineSimilarity_unfold Let_def n_def d_def n1_def n2_def)
  have rhs: "0 \<le> R ^ (2 * n + 1) / r ^ (2 * n + 3)"
    using r R by simp
  show ?thesis
  proof (cases "n1 = 0 \<or> n2 = 0")
    case True
    then show ?thesis
      using rhs by (simp add: cs n_def r_def R_def)
  next
    case False
    then have nz: "toDouble (sqrt (dotAcc v v n)) \<noteq> 0" "toDouble (sqrt (dotAcc w w n)) \<noteq> 0"
      by (simp_all add: n1_def n2_def)
    have S1: "0 < S1" and l1: "r ^ (n + 1) * sqrt S1 \<le> n1"
      using norm_lower [OF nz(1)] by (simp_all add: S1_def r_def n1_def)
    have S2: "0 < S2" and l2: "r ^ (n + 1) * sqrt S2 \<le> n2"
      using norm_lower [OF nz(2)] by (simp_all add: S2_def r_def n2_def)
    have T: "0 < T"
      using S1 S2 by (simp add: T_def)
    have nn: "0 \<le> n1" "0 \<le> n2"
      by (simp_all add: n1_def n2_def toDouble_nonneg dotAcc_self_nonneg)
    have "(r ^ (n + 1) * sqrt S1) * (r ^ (n + 1) * sqrt S2) \<le> n1 * n2"
      using l1 l2 r S1 S2 nn by (intro mult_mono) simp_all
    then have prod: "r ^ (2 * n + 2) * T \<le> n1 * n2"
      by (simp add: T_def algebra_simps power_add power2_eq_square mult_2 mult_2_right)
    have ppos: "0 \<le> n1 * n2"
      using prod r T by (smt (verit) mult_nonneg_nonneg zero_le_power less_imp_le)
    have "r ^ (2 * n + 3) * T = r * (r ^ (2 * n + 2) * T)"
      by (simp add: power_add power2_eq_square power3_eq_cube algebra_simps)
    also have "\<dots> \<le> r * (n1 * n2)"
      using prod r by (intro mult_left_mono) simp_all
    also have "\<dots> \<le> toDouble (n1 * n2)"
      unfolding r_def using ppos by (rule toDouble_lower)
    finally have den: "r ^ (2 * n + 3) * T \<le> toDouble (n1 * n2)" .
    have dpos: "0 < toDouble (n1 * n2)"
      using den r T by (smt (verit) mult_pos_pos zero_less_power)
    have "\<bar>d\<bar> \<le> R ^ (2 * n) * (\<Sum>i<n. \<bar>v ! i * w ! i\<bar>)"
      unfolding d_def R_def by (rule dotAcc_bound)
    also have "\<dots> \<le> R ^ (2 * n) * T"
      unfolding T_def S1_def S2_def using R
      by (intro mult_left_mono dot_le_norms) simp
    finally have num: "\<bar>d\<bar> \<le> R ^ (2 * n) * T" .
    have "\<bar>toDouble (d / toDouble (n1 * n2))\<bar> \<le> R * \<bar>d / toDouble (n1 * n2)\<bar>"
      unfolding R_def by (rule toDouble_abs_le)
    also have "\<dots> = R * (\<bar>d\<bar> / toDouble (n1 * n2))"
      using dpos by simp
    also have "\<dots> \<le> R * (R ^ (2 * n) * T / (r ^ (2 * n + 3) * T))"
      using R num den dpos r T
      by (intro mult_left_mono frac_le) simp_all
    also have "\<dots> = R ^ (2 * n + 1) / r ^ (2 * n + 3)"
      using T by simp
    finally show ?thesis
      using False by (simp add: cs n_def r_def R_def)
  qed
qed

lemma rounding_factor:
  assumes "n < 2 ^ 50"
  shows "(1 + unitRoundoff) ^ (2 * n + 1) / (1 - unitRoundoff) ^ (2 * n + 3)
           \<le> 1 + (real n + 1) / 2 ^ 50"
proof -
  define u where "u = unitRoundoff"
  define t where "t = (real n + 1) / 2 ^ 51"
  have u: "0 < u" "u < 1"
    using unitRoundoff_bounds by (simp_all add: u_def)
  have tu: "t = real (4 * n + 4) * u"
    by (simp add: t_def u_def unitRoundoff_def)
  have "real n + 1 \<le> 2 ^ 50"
    using assms by (metis Suc_leI of_nat_Suc of_nat_le_iff of_nat_numeral of_nat_power add.commute)
  then have t: "0 < t" "t \<le> 1 / 2"
    by (simp_all add: t_def field_simps)
  have "1 + real (4 * n + 4) * (- u) \<le> (1 + (- u)) ^ (4 * n + 4)"
    using u by (intro Bernoulli_inequality) simp
  then have bern: "1 - t \<le> (1 - u) ^ (4 * n + 4)"
    by (simp add: tu)
  have e: "(2 * n + 1) + (2 * n + 3) = 4 * n + 4"
    by simp
  have "(1 + u) * (1 - u) \<le> 1"
    using u by (simp add: algebra_simps)
  then have "1 + u \<le> 1 / (1 - u)"
    using u by (simp add: field_simps)
  then have "(1 + u) ^ (2 * n + 1) \<le> (1 / (1 - u)) ^ (2 * n + 1)"
    using u by (intro power_mono) simp_all
  then have "(1 + u) ^ (2 * n + 1) / (1 - u) ^ (2 * n + 3)
               \<le> (1 / (1 - u)) ^ (2 * n + 1) / (1 - u) ^ (2 * n + 3)"
    using u by (intro divide_right_mono) simp_all
  also have "\<dots> = 1 / ((1 - u) ^ (2 * n + 1) * (1 - u) ^ (2 * n + 3))"
    by (simp add: power_one_over del: power_Suc)
  also have "\<dots> = 1 / (1 - u) ^ ((2 * n + 1) + (2 * n + 3))"
    by (simp only: power_add)
  also have "\<dots> = 1 / (1 - u) ^ (4 * n + 4)"
    by (simp only: e)
  also have "\<dots> \<le> 1 / (1 - t)"
    using bern t by (intro divide_left_mono) simp_all
  also have "\<dots> \<le> 1 + 2 * t"
  proof -
    have "1 \<le> (1 + 2 * t) * (1 - t)"
      using t by (simp add: algebra_simps)
    then show ?thesis
      using t by (simp add: field_simps)
  qed
  also have "1 + 2 * t = 1 + (real n + 1) / 2 ^ 50"
    by (simp add: t_def)
  finally show ?thesis
    by (simp only: u_def)
qed

lemma sum_squares_pos:
  assumes "\<exists>x\<in>set v. x \<noteq> (0::real)"
  shows "0 < (\<Sum>i<length v. v ! i * v ! i)"
proof -
  from assms obtain k where k: "k < length v" "v ! k \<noteq> 0"
    by (auto simp: in_set_conv_nth)
  have "v ! k * v ! k \<le> (\<Sum>i<length v. v ! i * v ! i)"
    using k(1) by (intro member_le_sum) simp_all
  moreover have "0 < v ! k * v ! k"
    using k(2) by (simp add: zero_less_mult_iff less_le)
  ultimately show ?thesis by linarith
qed

lemma cosine_self_raw:
  assumes "\<exists>x\<in>set v. x \<noteq> 0"
  shows "(1 - unitRoundoff) / (1 + unitRoundoff) ^ 3 \<le> cosineSimilarity v v"
    and "cosineSimilarity v v \<le> (1 + unitRoundoff) / (1 - unitRoundoff) ^ 3"
proof -
  define r where "r = 1 - unitRoundoff"
  define R where "R = 1 + unitRoundoff"
  define s where "s = dotAcc v v (length v)"
  define m where "m = toDouble (sqrt s)"
  define q where "q = s / toDouble (m * m)"
  have r: "0 < r" and R: "1 \<le> R"
    using unitRoundoff_bounds by (simp_all add: r_def R_def)
  have "0 < r ^ (2 * length v) * (\<Sum>i<length v. v ! i * v ! i)"
    using r sum_squares_pos [OF assms] by simp
  also have "\<dots> \<le> s"
    unfolding r_def s_def by (rule dotAcc_self_lower)
  finally have s: "0 < s" .
  have ml: "r * sqrt s \<le> m" and mu: "m \<le> R * sqrt s"
    unfolding r_def R_def m_def using s by (simp_all add: toDouble_lower toDouble_upper)
  have mpos: "0 < m"
    using ml r s by (smt (verit) mult_pos_pos real_sqrt_gt_zero)
  have "(r * sqrt s) * (r * sqrt s) \<le> m * m"
    using ml mpos r s by (intro mult_mono) simp_all
  then have l2: "r\<^sup>2 * s \<le> m * m"
    using s by (simp add: power2_eq_square algebra_simps)
  have "m * m \<le> (R * sqrt s) * (R * sqrt s)"
    using mu mpos by (intro mult_mono) simp_all
  then have u2: "m * m \<le> R\<^sup>2 * s"
    using s by (simp add: power2_eq_square algebra_simps)
  have "r ^ 3 * s = r * (r\<^sup>2 * s)"
    by (simp add: power3_eq_cube power2_eq_square)
  also have "\<dots> \<le> r * (m * m)"
    using l2 r by (intro mult_left_mono) simp_all
  also have "\<dots> \<le> toDouble (m * m)"
    unfolding r_def by (rule toDouble_lower) simp
  finally have l3: "r ^ 3 * s \<le> toDouble (m * m)" .
  have "toDouble (m * m) \<le> R * (m * m)"
    unfolding R_def by (rule toDouble_upper) simp
  also have "\<dots> \<le> R * (R\<^sup>2 * s)"
    using u2 R by (intro mult_left_mono) simp_all
  also have "\<dots> = R ^ 3 * s"
    by (simp add: power3_eq_cube power2_eq_square)
  finally have u3: "toDouble (m * m) \<le> R ^ 3 * s" .
  have dpos: "0 < toDouble (m * m)"
    using l3 r s by (smt (verit) mult_pos_pos zero_less_power)
  have "1 / R ^ 3 = s / (R ^ 3 * s)"
    using s by simp
  also have "\<dots> \<le> q"
    unfolding q_def using u3 dpos s by (intro divide_left_mono) simp_all
  finally have ql: "1 / R ^ 3 \<le> q" .
  have "q \<le> s / (r ^ 3 * s)"
    unfolding q_def using l3 dpos s r by (intro divide_left_mono) simp_all
  also have "\<dots> = 1 / r ^ 3"
    using s by simp
  finally have qu: "q \<le> 1 / r ^ 3" .
  have qpos: "0 \<le> q"
    using s dpos by (simp add: q_def)
  have cs: "cosineSimilarity v v = toDouble q"
    using mpos by (simp add: cosineSimilarity_unfold Let_def s_def m_def q_def)
  have "r / R ^ 3 = r * (1 / R ^ 3)"
    by simp
  also have "\<dots> \<le> r * q"
    using ql r by (intro mult_left_mono) simp_all
  also have "\<dots> \<le> toDouble q"
    unfolding r_def using qpos by (rule toDouble_lower)
  finally show "(1 - unitRoundoff) / (1 + unitRoundoff) ^ 3 \<le> cosineSimilarity v v"
    by (simp add: cs r_def R_def)
  have "toDouble q \<le> R * q"
    unfolding R_def using qpos by (rule toDouble_upper)
  also have "\<dots> \<le> R * (1 / r ^ 3)"
    using qu R by (intro mult_left_mono) simp_all
  finally show "cosineSimilarity v v \<le> (1 + unitRoundoff) / (1 - unitRoundoff) ^ 3"
    by (simp add: cs r_def R_def)
qed

lemma self_factor:
  "1 - 1 / 2 ^ 50 \<le> (1 - unitRoundoff) / (1 + unitRoundoff) ^ 3"
  "(1 + unitRoundoff) / (1 - unitRoundoff) ^ 3 \<le> 1 + 1 / 2 ^ 50"
  by (simp_all add: unitRoundoff_def power3_eq_cube divide_simps)

lemma cosine_self:
  assumes "\<exists>x\<in>set v. x \<noteq> 0"
  shows "\<bar>cosineSimilarity v v - 1\<bar> \<le> 1 / 2 ^ 50"
  using cosine_self_raw [OF assms] self_factor unfolding abs_le_iff by linarith

lemma dotAcc_zero:
  "k \<le> n \<Longrightarrow> dotAcc (replicate n 0) (replicate n 0) k = 0"
  by (induction k) (simp_all add: dotAcc_0 dotAcc_Suc toDouble_zero)

lemma cosine_zero: "cosineSimilarity v (replicate n 0) = 0"
  by (simp add: cosineSimilarity_unfold Let_def dotAcc_zero toDouble_zero)

subsection \<open>The similarity of a vector of ones to itself\<close>

lemma toDouble_binade0:
  assumes "1 \<le> \<bar>x\<bar>" "\<bar>x\<bar> < 2" "\<bar>x * 2 ^ 52 - of_int m\<bar> < 1 / 2"
  shows "toDouble x = of_int m / 2 ^ 52"
  using toDouble_eqI [of 0 x m] assms by (simp add: powr_minus_divide)

lemma toDouble_binade1:
  assumes "2 \<le> \<bar>x\<bar>" "\<bar>x\<bar> < 4" "\<bar>x * 2 ^ 51 - of_int m\<bar> < 1 / 2"
  shows "toDouble x = of_int m / 2 ^ 51"
  using toDouble_eqI [of 1 x m] assms by (simp add: powr_minus_divide)

lemma toDouble_small:
  "toDouble 1 = 1" "toDouble 2 = 2" "toDouble 3 = 3"
  using toDouble_binade0 [of 1 "2 ^ 52"] toDouble_binade1 [of 2 "2 ^ 52"]
    toDouble_binade1 [of 3 "3 * 2 ^ 51"]
  by simp_all

lemma toDouble_sqrt3: "toDouble (sqrt 3) = 7800463371553962 / 2 ^ 52"
proof -
  have sq: "sqrt (3 * c\<^sup>2) = sqrt 3 * c" if "0 \<le> c" for c :: real
    using that by (simp add: real_sqrt_mult)
  have eq: "sqrt (3 * (2 ^ 53)\<^sup>2) = sqrt 3 * 2 ^ 53"
    by (rule sq) simp
  have "15600926743107923 < sqrt (3 * (2 ^ 53)\<^sup>2)"
    by (rule real_less_rsqrt) simp
  then have lo: "15600926743107923 < sqrt 3 * 2 ^ 53"
    by (simp only: eq)
  have "sqrt (3 * (2 ^ 53)\<^sup>2) < 15600926743107925"
    by (rule real_less_lsqrt) simp_all
  then have hi: "sqrt 3 * 2 ^ 53 < 15600926743107925"
    by (simp only: eq)
  define c where "c = sqrt 3 * 2 ^ 52"
  have "sqrt 3 * 2 ^ 53 = 2 * c"
    by (simp add: c_def)
  with lo hi have "15600926743107923 < 2 * c" "2 * c < 15600926743107925"
    by simp_all
  then have "\<bar>c - 7800463371553962\<bar> < 1 / 2"
    unfolding abs_less_iff by linarith
  then have a: "\<bar>sqrt 3 * 2 ^ 52 - of_int 7800463371553962\<bar> < 1 / 2"
    by (simp add: c_def)
  have b: "1 \<le> \<bar>sqrt 3\<bar>" "\<bar>sqrt 3\<bar> < 2"
    using lo hi by simp_all
  show ?thesis
    using toDouble_binade0 [OF b a] by simp
qed

lemma toDouble_norms:
  "toDouble (7800463371553962 / 2 ^ 52 * (7800463371553962 / 2 ^ 52)) = 6755399441055743 / 2 ^ 51"
  using toDouble_binade1 [of "7800463371553962 / 2 ^ 52 * (7800463371553962 / 2 ^ 52)" 6755399441055743]
  by (simp add: abs_less_iff)

lemma toDouble_quotient:
  "toDouble (3 / (6755399441055743 / 2 ^ 51)) = 1 + 1 / 2 ^ 52"
  using toDouble_binade0 [of "3 / (6755399441055743 / 2 ^ 51)" "2 ^ 52 + 1"]
  by (simp add: abs_less_iff)

lemma dotAcc_ones: "dotAcc [1, 1, 1] [1, 1, 1] 3 = 3"
  by (simp add: numeral_3_eq_3 dotAcc_Suc dotAcc_0 toDouble_small)

lemma cosine_ones: "cosineSimilarity [1, 1, 1] [1, 1, 1] = 1 + 1 / 2 ^ 52"
proof -
  define m :: real where "m = 7800463371553962 / 2 ^ 52"
  have len: "min (length [1, 1, 1 :: real]) (length [1, 1, 1 :: real]) = 3"
    by simp
  have n: "toDouble (sqrt 3) = m"
    unfolding m_def by (rule toDouble_sqrt3)
  have mnz: "m \<noteq> 0"
    by (simp add: m_def)
  have p: "toDouble (m * m) = 6755399441055743 / 2 ^ 51"
    unfolding m_def by (rule toDouble_norms)
  have "cosineSimilarity [1, 1, 1] [1, 1, 1] = toDouble (3 / toDouble (m * m))"
    by (simp only: cosineSimilarity_unfold len Let_def dotAcc_ones n) (simp add: mnz)
  also have "\<dots> = 1 + 1 / 2 ^ 52"
    by (simp only: p toDouble_quotient)
  finally show ?thesis .
qed

subsection \<open>No overflow and no underflow on embeddings\<close>

text \<open>
  On vectors of the \<open>Float32\<close> range every accumulator is a multiple of \<open>1 / 2 ^ 350\<close>
  and at most \<open>2 ^ 307\<close>, so every exact result that \<open>cosineSimilarity\<close> rounds is zero or
  of a normal binary64 magnitude.
\<close>

lemma onGrid_0: "onGrid 0"
  unfolding onGrid_def by (rule exI [of _ 0]) simp

lemma onGrid_add: "onGrid a \<Longrightarrow> onGrid b \<Longrightarrow> onGrid (a + b)"
proof -
  assume "onGrid a" "onGrid b"
  then obtain m k :: int where "a = of_int m / 2 ^ 350" "b = of_int k / 2 ^ 350"
    by (auto simp: onGrid_def)
  then have "a + b = of_int (m + k) / 2 ^ 350"
    by (simp add: add_divide_distrib)
  then show ?thesis
    unfolding onGrid_def by blast
qed

lemma onGrid_lower:
  assumes "onGrid x" "x \<noteq> 0"
  shows "1 / 2 ^ 350 \<le> \<bar>x\<bar>"
proof -
  from assms(1) obtain m :: int where m: "x = of_int m / 2 ^ 350"
    by (auto simp: onGrid_def)
  with assms(2) have "m \<noteq> 0"
    by auto
  then have "1 \<le> \<bar>m\<bar>"
    by simp
  then have "(1::real) \<le> \<bar>of_int m\<bar>"
    by (metis of_int_1_le_iff of_int_abs)
  then show ?thesis
    by (simp add: m divide_right_mono)
qed

lemma ulp_coarse:
  assumes "- 298 \<le> e"
  shows "(2::real) powr (of_int e - 52) = 2 ^ nat (e + 298) / 2 ^ 350"
proof -
  have "of_int e - 52 = real (nat (e + 298)) - 350"
    using assms by simp
  then have "2 powr (of_int e - 52) = 2 powr (real (nat (e + 298)) - 350)"
    by simp
  also have "\<dots> = 2 powr real (nat (e + 298)) / 2 powr 350"
    by (rule powr_diff)
  also have "\<dots> = 2 ^ nat (e + 298) / 2 ^ 350"
    by (simp add: powr_realpow)
  finally show ?thesis .
qed

lemma ulp_fine:
  assumes "e < - 298"
  shows "(1::real) / 2 ^ 350 = 2 ^ nat (- 298 - e) * 2 powr (of_int e - 52)"
proof -
  have "(2::real) ^ nat (- 298 - e) * 2 powr (of_int e - 52)
          = 2 powr real (nat (- 298 - e)) * 2 powr (of_int e - 52)"
    by (simp add: powr_realpow)
  also have "\<dots> = 2 powr (real (nat (- 298 - e)) + (of_int e - 52))"
    by (simp add: powr_add)
  also have "real (nat (- 298 - e)) + (of_int e - 52) = - 350"
    using assms by simp
  finally show ?thesis
    by (simp add: powr_minus_divide)
qed

lemma toDouble_multiple: "toDouble x = of_int (roundHalfEven (x / ulp x)) * ulp x"
  by (simp add: toDouble_def roundHalfEven_def)

lemma onGrid_coarse:
  assumes "- 298 \<le> binade x"
  shows "onGrid (toDouble x)"
proof -
  define M where "M = roundHalfEven (x / ulp x)"
  have "toDouble x = of_int M * (2 ^ nat (binade x + 298) / 2 ^ 350)"
    unfolding M_def ulp_coarse [OF assms, symmetric] ulp_def [symmetric]
    by (rule toDouble_multiple)
  then have "toDouble x = of_int (M * 2 ^ nat (binade x + 298)) / 2 ^ 350"
    by simp
  then show ?thesis
    unfolding onGrid_def by blast
qed

lemma binade_ge:
  assumes "2 powr of_int e \<le> \<bar>x\<bar>"
  shows "e \<le> binade x"
proof -
  have pos: "0 < \<bar>x\<bar>"
    using assms by (smt (verit) powr_gt_zero)
  have "of_int e \<le> log 2 \<bar>x\<bar>"
    using assms pos by (simp add: le_log_iff)
  then show ?thesis
    by (simp add: binade_def le_floor_iff)
qed

lemma onGrid_large:
  assumes "1 / 2 ^ 298 \<le> \<bar>x\<bar>"
  shows "onGrid (toDouble x)"
proof -
  have "2 powr of_int (- 298) \<le> \<bar>x\<bar>"
    using assms by (simp add: powr_minus_divide)
  then have "- 298 \<le> binade x"
    by (rule binade_ge)
  then show ?thesis
    by (rule onGrid_coarse)
qed

lemma roundHalfEven_of_int: "roundHalfEven (of_int k) = k"
  by (rule roundHalfEven_eqI) simp

lemma onGrid_toDouble:
  assumes "onGrid z"
  shows "onGrid (toDouble z)"
proof (cases "- 298 \<le> binade z")
  case True
  then show ?thesis
    by (rule onGrid_coarse)
next
  case False
  then have e: "binade z < - 298"
    by simp
  from assms obtain m :: int where m: "z = of_int m / 2 ^ 350"
    by (auto simp: onGrid_def)
  have "z = of_int m * (1 / 2 ^ 350)"
    by (simp add: m)
  also have "\<dots> = of_int m * (2 ^ nat (- 298 - binade z) * ulp z)"
    unfolding ulp_def by (simp only: ulp_fine [OF e])
  finally have z: "z = of_int (m * 2 ^ nat (- 298 - binade z)) * ulp z"
    by simp
  have "z / ulp z = of_int (m * 2 ^ nat (- 298 - binade z))"
    using ulp_pos [of z] by (subst z) simp
  then have "roundHalfEven (z / ulp z) = m * 2 ^ nat (- 298 - binade z)"
    by (simp only: roundHalfEven_of_int)
  then have "toDouble z = z"
    using z by (simp add: toDouble_multiple)
  then show ?thesis
    using assms by simp
qed

lemma toDouble_abs_le2: "\<bar>toDouble x\<bar> \<le> 2 * \<bar>x\<bar>"
proof -
  have "\<bar>toDouble x\<bar> \<le> (1 + unitRoundoff) * \<bar>x\<bar>"
    by (rule toDouble_abs_le)
  also have "\<dots> \<le> 2 * \<bar>x\<bar>"
    using unitRoundoff_bounds by (intro mult_right_mono) simp_all
  finally show ?thesis .
qed

lemma toDouble_abs_ge2: "\<bar>x\<bar> / 2 \<le> \<bar>toDouble x\<bar>"
proof -
  have "\<bar>x\<bar> - \<bar>toDouble x\<bar> \<le> \<bar>toDouble x - x\<bar>"
    by linarith
  also have "\<dots> \<le> unitRoundoff * \<bar>x\<bar>"
    by (rule toDouble_error)
  also have "\<dots> \<le> 1 / 2 * \<bar>x\<bar>"
    by (intro mult_right_mono) (simp_all add: unitRoundoff_def)
  finally show ?thesis
    by simp
qed

lemma abs_mult_bounds:
  fixes x y :: real
  assumes "lo1 \<le> \<bar>x\<bar>" "\<bar>x\<bar> \<le> hi1" "lo2 \<le> \<bar>y\<bar>" "\<bar>y\<bar> \<le> hi2" "0 \<le> lo1" "0 \<le> lo2"
  shows "lo1 * lo2 \<le> \<bar>x * y\<bar>" "\<bar>x * y\<bar> \<le> hi1 * hi2"
  using assms by (simp_all add: abs_mult mult_mono)

lemma abs_div_bounds:
  fixes x y :: real
  assumes "lo1 \<le> \<bar>x\<bar>" "\<bar>x\<bar> \<le> hi1" "lo2 \<le> \<bar>y\<bar>" "\<bar>y\<bar> \<le> hi2" "0 \<le> lo1" "0 < lo2"
  shows "lo1 / hi2 \<le> \<bar>x / y\<bar>" "\<bar>x / y\<bar> \<le> hi1 / lo2"
  using assms by (simp_all add: frac_le)

lemma sqrt_between:
  assumes "lo \<le> a" "a \<le> hi" "0 < lo" "lo \<le> 1" "1 \<le> hi"
  shows "lo \<le> sqrt a" "sqrt a \<le> hi"
proof -
  have "lo\<^sup>2 \<le> lo * 1"
    unfolding power2_eq_square using assms(3,4) by (intro mult_left_mono) simp_all
  then have "lo\<^sup>2 \<le> a"
    using assms(1) by simp
  then show "lo \<le> sqrt a"
    by (rule real_le_rsqrt)
  have "hi * 1 \<le> hi\<^sup>2"
    unfolding power2_eq_square using assms(5) by (intro mult_left_mono) simp_all
  then have "a \<le> hi\<^sup>2"
    using assms(2) by simp
  then show "sqrt a \<le> hi"
    using assms(5) by (intro real_le_lsqrt) simp_all
qed

lemma growth:
  assumes "k < 2 ^ 50"
  shows "(1 + unitRoundoff) ^ (2 * k) \<le> 2"
proof -
  define u where "u = unitRoundoff"
  have u: "0 < u" "u < 1"
    using unitRoundoff_bounds by (simp_all add: u_def)
  have "real k \<le> 2 ^ 50"
    using assms by (metis less_imp_le of_nat_le_iff of_nat_numeral of_nat_power)
  then have t: "real (2 * k) * u \<le> 1 / 4"
    by (simp add: u_def unitRoundoff_def)
  have "1 + real (2 * k) * (- u) \<le> (1 + (- u)) ^ (2 * k)"
    using u by (intro Bernoulli_inequality) simp
  then have bern: "3 / 4 \<le> (1 - u) ^ (2 * k)"
    using t by simp
  have "(1 + u) * (1 - u) \<le> 1"
    using u by (simp add: algebra_simps)
  then have "1 + u \<le> 1 / (1 - u)"
    using u by (simp add: field_simps)
  then have "(1 + u) ^ (2 * k) \<le> (1 / (1 - u)) ^ (2 * k)"
    using u by (intro power_mono) simp_all
  also have "\<dots> = 1 / (1 - u) ^ (2 * k)"
    by (simp add: power_one_over)
  also have "\<dots> \<le> 1 / (3 / 4)"
    using bern by (intro divide_left_mono) simp_all
  finally show ?thesis
    by (simp add: u_def)
qed

lemma float32Vector_nth:
  assumes "float32Vector v" "i < length v"
  shows "float32Magnitude (v ! i)"
  using assms by (simp add: float32Vector_def list_all_length)

lemma float32_product:
  assumes "float32Magnitude x" "float32Magnitude y"
  shows "x * y = 0 \<or> (1 / 2 ^ 298 \<le> \<bar>x * y\<bar> \<and> \<bar>x * y\<bar> \<le> 2 ^ 256)"
proof (cases "x = 0 \<or> y = 0")
  case True
  then show ?thesis by auto
next
  case False
  then have x: "1 / 2 ^ 149 \<le> \<bar>x\<bar>" "\<bar>x\<bar> \<le> 2 ^ 128" and y: "1 / 2 ^ 149 \<le> \<bar>y\<bar>" "\<bar>y\<bar> \<le> 2 ^ 128"
    using assms by (auto simp: float32Magnitude_def)
  have "1 / 2 ^ 149 * (1 / 2 ^ 149) \<le> \<bar>x * y\<bar>" "\<bar>x * y\<bar> \<le> 2 ^ 128 * 2 ^ 128"
    using abs_mult_bounds [OF x y] by simp_all
  then show ?thesis
    by simp
qed

lemma onGrid_product:
  assumes "float32Magnitude x" "float32Magnitude y"
  shows "onGrid (toDouble (x * y))"
  using float32_product [OF assms] by (auto simp: toDouble_zero onGrid_0 onGrid_large)

lemma onGrid_dotAcc:
  assumes "float32Vector v" "float32Vector w" "k \<le> length v" "k \<le> length w"
  shows "onGrid (dotAcc v w k)"
  using assms(3,4)
proof (induction k)
  case 0
  show ?case by (simp add: dotAcc_0 onGrid_0)
next
  case (Suc k)
  have "onGrid (toDouble (v ! k * w ! k))"
    using Suc.prems assms(1,2) by (intro onGrid_product float32Vector_nth) simp_all
  then show ?case
    using Suc by (simp add: dotAcc_Suc onGrid_toDouble onGrid_add)
qed

lemma dotAcc_upper:
  assumes "float32Vector v" "float32Vector w" "k \<le> length v" "k \<le> length w"
  shows "\<bar>dotAcc v w k\<bar> \<le> 2 ^ 307"
proof -
  have k: "k < 2 ^ 50"
    using assms(1,3) by (simp add: float32Vector_def)
  then have rk: "real k \<le> 2 ^ 50"
    by (metis less_imp_le of_nat_le_iff of_nat_numeral of_nat_power)
  have "\<bar>v ! i * w ! i\<bar> \<le> 2 ^ 256" if "i < k" for i
  proof -
    have "float32Magnitude (v ! i)" "float32Magnitude (w ! i)"
      using that assms by (simp_all add: float32Vector_nth)
    then show ?thesis
      using float32_product [of "v ! i" "w ! i"] by auto
  qed
  then have "(\<Sum>i<k. \<bar>v ! i * w ! i\<bar>) \<le> real (card {..<k}) * 2 ^ 256"
    by (intro sum_bounded_above) simp
  also have "\<dots> \<le> 2 ^ 50 * 2 ^ 256"
    using rk by (intro mult_right_mono) simp_all
  finally have s: "(\<Sum>i<k. \<bar>v ! i * w ! i\<bar>) \<le> 2 ^ 50 * 2 ^ 256" .
  have "\<bar>dotAcc v w k\<bar> \<le> (1 + unitRoundoff) ^ (2 * k) * (\<Sum>i<k. \<bar>v ! i * w ! i\<bar>)"
    by (rule dotAcc_bound)
  also have "\<dots> \<le> 2 * (2 ^ 50 * 2 ^ 256)"
    using growth [OF k] s by (intro mult_mono) (simp_all add: sum_nonneg)
  finally show ?thesis
    by simp
qed

lemma product_normal:
  assumes "float32Magnitude x" "float32Magnitude y"
  shows "normalRange (x * y)"
proof -
  have "(1::real) / 2 ^ 1022 \<le> 1 / 2 ^ 298" "(2::real) ^ 256 < 2 ^ 1023"
    by simp_all
  then show ?thesis
    using float32_product [OF assms] unfolding normalRange_def by linarith
qed

lemma accumulator_normal:
  assumes "float32Vector v" "float32Vector w" "k < length v" "k < length w"
  shows "normalRange (dotAcc v w k + toDouble (v ! k * w ! k))"
proof -
  define z where "z = dotAcc v w k + toDouble (v ! k * w ! k)"
  have m: "float32Magnitude (v ! k)" "float32Magnitude (w ! k)"
    using assms by (simp_all add: float32Vector_nth)
  have "onGrid z"
    unfolding z_def using assms m by (intro onGrid_add onGrid_dotAcc onGrid_product) simp_all
  then have lo: "z = 0 \<or> 1 / 2 ^ 350 \<le> \<bar>z\<bar>"
    using onGrid_lower by blast
  have "\<bar>v ! k * w ! k\<bar> \<le> 2 ^ 256"
    using float32_product [OF m] by auto
  then have "\<bar>toDouble (v ! k * w ! k)\<bar> \<le> 2 * 2 ^ 256"
    using toDouble_abs_le2 [of "v ! k * w ! k"] by linarith
  moreover have "\<bar>dotAcc v w k\<bar> \<le> 2 ^ 307"
    using assms by (intro dotAcc_upper) simp_all
  ultimately have hi: "\<bar>z\<bar> \<le> 2 ^ 307 + 2 * 2 ^ 256"
    unfolding z_def by linarith
  have "(1::real) / 2 ^ 1022 \<le> 1 / 2 ^ 350" "(2::real) ^ 307 + 2 * 2 ^ 256 < 2 ^ 1023"
    by simp_all
  then have "normalRange z"
    using lo hi unfolding normalRange_def by linarith
  then show ?thesis
    by (simp add: z_def)
qed

lemma norm_range:
  assumes "float32Vector v" "k \<le> length v"
  shows "dotAcc v v k = 0 \<or> (1 / 2 ^ 350 \<le> dotAcc v v k \<and> dotAcc v v k \<le> 2 ^ 307)"
proof -
  have "onGrid (dotAcc v v k)"
    using assms by (intro onGrid_dotAcc) simp_all
  then have "dotAcc v v k = 0 \<or> 1 / 2 ^ 350 \<le> \<bar>dotAcc v v k\<bar>"
    using onGrid_lower by blast
  moreover have "\<bar>dotAcc v v k\<bar> \<le> 2 ^ 307"
    using assms by (intro dotAcc_upper) simp_all
  moreover have "0 \<le> dotAcc v v k"
    by (rule dotAcc_self_nonneg)
  ultimately show ?thesis
    by linarith
qed

lemma root_range:
  assumes "float32Vector v" "k \<le> length v"
  shows "sqrt (dotAcc v v k) = 0
         \<or> (1 / 2 ^ 350 \<le> sqrt (dotAcc v v k) \<and> sqrt (dotAcc v v k) \<le> 2 ^ 307)"
proof -
  from norm_range [OF assms] show ?thesis
  proof
    assume "dotAcc v v k = 0"
    then show ?thesis by simp
  next
    assume a: "1 / 2 ^ 350 \<le> dotAcc v v k \<and> dotAcc v v k \<le> 2 ^ 307"
    have "1 / 2 ^ 350 \<le> sqrt (dotAcc v v k)" "sqrt (dotAcc v v k) \<le> 2 ^ 307"
      using a by (intro sqrt_between [where lo = "1 / 2 ^ 350" and hi = "2 ^ 307"]; simp)+
    then show ?thesis by simp
  qed
qed

lemma root_normal:
  assumes "float32Vector v" "k \<le> length v"
  shows "normalRange (sqrt (dotAcc v v k))"
proof -
  show ?thesis
    using root_range [OF assms] by (auto simp: normalRange_def)
qed

lemma rounded_root_range:
  assumes "float32Vector v" "k \<le> length v" "toDouble (sqrt (dotAcc v v k)) \<noteq> 0"
  shows "1 / 2 ^ 351 \<le> \<bar>toDouble (sqrt (dotAcc v v k))\<bar>"
    and "\<bar>toDouble (sqrt (dotAcc v v k))\<bar> \<le> 2 ^ 308"
proof -
  define s where "s = sqrt (dotAcc v v k)"
  have "s \<noteq> 0"
    using assms(3) by (auto simp: s_def toDouble_zero)
  then have s: "1 / 2 ^ 350 \<le> s" "s \<le> 2 ^ 307"
    using root_range [OF assms(1,2)] by (simp_all add: s_def)
  have "1 / 2 ^ 351 \<le> \<bar>toDouble s\<bar>"
    using toDouble_abs_ge2 [of s] s by simp
  moreover have "\<bar>toDouble s\<bar> \<le> 2 ^ 308"
    using toDouble_abs_le2 [of s] s by simp
  ultimately show "1 / 2 ^ 351 \<le> \<bar>toDouble (sqrt (dotAcc v v k))\<bar>"
    and "\<bar>toDouble (sqrt (dotAcc v v k))\<bar> \<le> 2 ^ 308"
    by (simp_all add: s_def)
qed

lemma quotient_normal:
  assumes "float32Vector v" "float32Vector w" "n \<le> length v" "n \<le> length w"
    and "toDouble (sqrt (dotAcc v v n)) \<noteq> 0" "toDouble (sqrt (dotAcc w w n)) \<noteq> 0"
  shows "normalRange (toDouble (sqrt (dotAcc v v n)) * toDouble (sqrt (dotAcc w w n)))"
    and "normalRange (dotAcc v w n
           / toDouble (toDouble (sqrt (dotAcc v v n)) * toDouble (sqrt (dotAcc w w n))))"
proof -
  define r1 where "r1 = toDouble (sqrt (dotAcc v v n))"
  define r2 where "r2 = toDouble (sqrt (dotAcc w w n))"
  define d where "d = dotAcc v w n"
  have r1: "1 / 2 ^ 351 \<le> \<bar>r1\<bar>" "\<bar>r1\<bar> \<le> 2 ^ 308"
    unfolding r1_def using assms by (intro rounded_root_range; simp)+
  have r2: "1 / 2 ^ 351 \<le> \<bar>r2\<bar>" "\<bar>r2\<bar> \<le> 2 ^ 308"
    unfolding r2_def using assms by (intro rounded_root_range; simp)+
  have p: "1 / 2 ^ 351 * (1 / 2 ^ 351) \<le> \<bar>r1 * r2\<bar>" "\<bar>r1 * r2\<bar> \<le> 2 ^ 308 * 2 ^ 308"
    using abs_mult_bounds [OF r1 r2] by simp_all
  have "(1::real) / 2 ^ 1022 \<le> 1 / 2 ^ 351 * (1 / 2 ^ 351)" "(2::real) ^ 308 * 2 ^ 308 < 2 ^ 1023"
    by simp_all
  then have "normalRange (r1 * r2)"
    using p unfolding normalRange_def by linarith
  then show "normalRange (toDouble (sqrt (dotAcc v v n)) * toDouble (sqrt (dotAcc w w n)))"
    by (simp add: r1_def r2_def)
  have den: "1 / 2 ^ 351 * (1 / 2 ^ 351) / 2 \<le> \<bar>toDouble (r1 * r2)\<bar>"
      "\<bar>toDouble (r1 * r2)\<bar> \<le> 2 * (2 ^ 308 * 2 ^ 308)"
    using toDouble_abs_ge2 [of "r1 * r2"] toDouble_abs_le2 [of "r1 * r2"] p by simp_all
  have "onGrid d"
    unfolding d_def using assms by (intro onGrid_dotAcc) simp_all
  then have dlo: "d = 0 \<or> 1 / 2 ^ 350 \<le> \<bar>d\<bar>"
    using onGrid_lower by blast
  have dhi: "\<bar>d\<bar> \<le> 2 ^ 307"
    unfolding d_def using assms by (intro dotAcc_upper) simp_all
  have "normalRange (d / toDouble (r1 * r2))"
  proof (cases "d = 0")
    case True
    then show ?thesis by (simp add: normalRange_def)
  next
    case False
    then have dl: "1 / 2 ^ 350 \<le> \<bar>d\<bar>"
      using dlo by simp
    have q: "1 / 2 ^ 350 / (2 * (2 ^ 308 * 2 ^ 308)) \<le> \<bar>d / toDouble (r1 * r2)\<bar>"
      "\<bar>d / toDouble (r1 * r2)\<bar> \<le> 2 ^ 307 / (1 / 2 ^ 351 * (1 / 2 ^ 351) / 2)"
      using abs_div_bounds [OF dl dhi den] by simp_all
    have "(1::real) / 2 ^ 1022 \<le> 1 / 2 ^ 350 / (2 * (2 ^ 308 * 2 ^ 308))"
      "(2::real) ^ 307 / (1 / 2 ^ 351 * (1 / 2 ^ 351) / 2) < 2 ^ 1023"
      by simp_all
    then show ?thesis
      using q unfolding normalRange_def by linarith
  qed
  then show "normalRange (dotAcc v w n
           / toDouble (toDouble (sqrt (dotAcc v v n)) * toDouble (sqrt (dotAcc w w n))))"
    by (simp add: r1_def r2_def d_def)
qed

lemma cosineOperands_normal:
  assumes "float32Vector v" "float32Vector w"
  shows "list_all normalRange (cosineOperands v w)"
proof -
  define n where "n = min (length v) (length w)"
  have n: "n \<le> length v" "n \<le> length w"
    by (simp_all add: n_def)
  have loop: "normalRange (v ! i * w ! i)
      \<and> normalRange (dotAcc v w i + toDouble (v ! i * w ! i))
      \<and> normalRange (v ! i * v ! i)
      \<and> normalRange (dotAcc v v i + toDouble (v ! i * v ! i))
      \<and> normalRange (w ! i * w ! i)
      \<and> normalRange (dotAcc w w i + toDouble (w ! i * w ! i))" if "i < n" for i
  proof -
    have i: "i < length v" "i < length w"
      using that n by simp_all
    have m: "float32Magnitude (v ! i)" "float32Magnitude (w ! i)"
      using assms i by (simp_all add: float32Vector_nth)
    show ?thesis
      using assms i m by (simp add: product_normal accumulator_normal)
  qed
  have roots: "normalRange (sqrt (dotAcc v v n))" "normalRange (sqrt (dotAcc w w n))"
    using assms n by (simp_all add: root_normal)
  have rest: "normalRange (toDouble (sqrt (dotAcc v v n)) * toDouble (sqrt (dotAcc w w n)))
      \<and> normalRange (dotAcc v w n
           / toDouble (toDouble (sqrt (dotAcc v v n)) * toDouble (sqrt (dotAcc w w n))))"
    if "toDouble (sqrt (dotAcc v v n)) \<noteq> 0" "toDouble (sqrt (dotAcc w w n)) \<noteq> 0"
    using quotient_normal [OF assms n that] by simp
  show ?thesis
    using loop roots rest
    by (simp add: cosineOperands_def cosineLoop_dotAcc Let_def n_def [symmetric] list_all_iff)
qed

subsection \<open>The two implementations\<close>

lemma cosineLoopVPS_prefix:
  assumes "n \<le> length vec2"
  shows "fold (\<lambda>i (dotProduct, norm1, norm2).
             (nanAdd dotProduct (nanMul (Some (vec1 ! i)) (readNum vec2 i)),
              toDouble (norm1 + toDouble (vec1 ! i * vec1 ! i)),
              nanAdd norm2 (nanMul (readNum vec2 i) (readNum vec2 i))))
          [0..<n] (Some 0, 0, Some 0) =
         (Some (dotAcc vec1 vec2 n), dotAcc vec1 vec1 n, Some (dotAcc vec2 vec2 n))"
  using assms by (induction n) (simp_all add: readNum_def dotAcc_0 dotAcc_Suc)

lemma cosineVPS_eq:
  assumes "length vec1 = length vec2"
  shows "cosineSimilarityVPS vec1 vec2 = Some (cosineSimilarity vec1 vec2)"
  using assms
  by (simp add: cosineSimilarityVPS_def cosineLoopVPS_def cosineLoopVPS_prefix
      cosineSimilarity_unfold Let_def)

lemma cosine_bound:
  assumes "min (length v) (length w) < 2 ^ 50"
  shows "\<bar>cosineSimilarity v w\<bar> \<le> 1 + (real (min (length v) (length w)) + 1) / 2 ^ 50"
  using cosine_bound_raw [of v w] rounding_factor [OF assms] by (rule order_trans)

text \<open>
  C5, as the code has it. On vectors of fewer than \<open>2 ^ 50\<close> numbers that are zero or
  of a magnitude in the \<open>Float32\<close> range, no operation of
  \<open>ProductRAGSystem.cosineSimilarity\<close> overflows or underflows, and the result lies within
  \<open>(n + 1) / 2 ^ 50\<close> of the interval \<open>[-1, 1]\<close>, \<open>n\<close> being the length of the shorter vector,
  and is within \<open>1 / 2 ^ 50\<close> of \<open>1\<close> on such a vector with a non-zero component and itself.
  It is \<open>0\<close> on any vector against a zero vector. On two vectors of equal length
  \<open>VectorProductSearch.cosineSimilarity\<close> returns the same number, so the three facts hold
  for it on such pairs.
\<close>

theorem cosineSimilarity_bounds_amended:
  "(float32Vector v1 \<and> float32Vector v2 \<longrightarrow>
      list_all normalRange (cosineOperands v1 v2)
      \<and> \<bar>cosineSimilarity v1 v2\<bar> \<le> 1 + (real (min (length v1) (length v2)) + 1) / 2 ^ 50)
   \<and> (float32Vector v1 \<and> (\<exists>x\<in>set v1. x \<noteq> 0) \<longrightarrow> \<bar>cosineSimilarity v1 v1 - 1\<bar> \<le> 1 / 2 ^ 50)
   \<and> cosineSimilarity v1 (replicate n 0) = 0
   \<and> (length v1 = length v2 \<longrightarrow> cosineSimilarityVPS v1 v2 = Some (cosineSimilarity v1 v2))"
proof -
  have a: "\<bar>cosineSimilarity v1 v2\<bar> \<le> 1 + (real (min (length v1) (length v2)) + 1) / 2 ^ 50"
    if "float32Vector v1"
    using that by (intro cosine_bound) (simp add: float32Vector_def min_less_iff_disj)
  have r: "list_all normalRange (cosineOperands v1 v2)" if "float32Vector v1" "float32Vector v2"
    using that by (rule cosineOperands_normal)
  have b: "\<bar>cosineSimilarity v1 v1 - 1\<bar> \<le> 1 / 2 ^ 50" if "\<exists>x\<in>set v1. x \<noteq> 0"
    using that by (rule cosine_self)
  have c: "cosineSimilarity v1 (replicate n 0) = 0"
    by (rule cosine_zero)
  have d: "cosineSimilarityVPS v1 v2 = Some (cosineSimilarity v1 v2)" if "length v1 = length v2"
    using that by (rule cosineVPS_eq)
  show ?thesis
    using a r b c d by blast
qed

text \<open>The amended C5 on \<open>[3, 2]\<close> against \<open>[2, 3]\<close>, itself and the zero vector.\<close>

theorem cosineSimilarity_bounds_amended_witness:
  "list_all normalRange (cosineOperands [3, 2] [2, 3])
   \<and> \<bar>cosineSimilarity [3, 2] [2, 3]\<bar> \<le> 1 + 3 / 2 ^ 50
   \<and> \<bar>cosineSimilarity [3, 2] [3, 2] - 1\<bar> \<le> 1 / 2 ^ 50
   \<and> cosineSimilarity [3, 2] (replicate 2 0) = 0
   \<and> cosineSimilarityVPS [3, 2] [2, 3] = Some (cosineSimilarity [3, 2] [2, 3])"
  using cosineSimilarity_bounds_amended [of "[3, 2]" "[2, 3]" 2]
  by (simp add: float32Vector_def float32Magnitude_def isDouble_def toDouble_small)

text \<open>
  C5, as the claim states it, fails through rounding: \<open>Math.sqrt(3)\<close> is rounded down, its
  square is rounded to the number just below \<open>3\<close>, and the quotient is rounded to the number
  just above \<open>1\<close>. The similarity of \<open>[1, 1, 1]\<close> to itself is \<open>1.0000000000000002\<close>, which
  is neither \<open>1\<close> nor within \<open>[-1, 1]\<close>.
\<close>

theorem cosineSimilarity_rounding_counterexample:
  "cosineSimilarity [1, 1, 1] [1, 1, 1] = 1 + 1 / 2 ^ 52 \<and> \<not> cosineSimilarity [1, 1, 1] [1, 1, 1] \<le> 1"
  by (simp add: cosine_ones)

section \<open>Properties of the embedding engine\<close>


















section \<open>Properties of retrieval and of the RAG orchestrator\<close>









lemma dedup_distinct_insort:
  "distinct (map g (insort_key f x xs)) \<longleftrightarrow> g x \<notin> g ` set xs \<and> distinct (map g xs)"
  by (induction xs) (auto simp: set_insort_key)

lemma distinct_map_sort_key: "distinct (map g (sort_key f xs)) = distinct (map g xs)"
  by (induction xs) (simp_all add: dedup_distinct_insort)

lemma map_of_keyed:
  assumes "map_of kvs (dedupKey m) = Some kept"
  shows "dedupKey m \<in> fst ` set kvs"
  using assms by (metis map_of_eq_None_iff option.distinct(1))

lemma replace_keys:
  "map (fst \<circ> (\<lambda>(k, v). if k = key then (k, m) else (k, v))) kvs = map fst kvs"
  by (induction kvs) auto

lemma keyed_dedupStep:
  assumes "keyed kvs"
  shows "keyed (dedupStep kvs m)"
proof (cases "map_of kvs (dedupKey m)")
  case None
  then have "dedupKey m \<notin> fst ` set kvs"
    by (simp add: map_of_eq_None_iff)
  then show ?thesis
    using assms None by (auto simp: keyed_def dedupStep_def)
next
  case (Some kept)
  have "list_all (\<lambda>(k, v). dedupKey v = k)
          (map (\<lambda>(k, v). if k = dedupKey m then (k, m) else (k, v)) kvs)"
    using assms by (auto simp: keyed_def list_all_iff split: if_splits)
  then show ?thesis
    using assms Some by (simp add: keyed_def dedupStep_def replace_keys)
qed

lemma keyed_foldl:
  assumes "keyed kvs"
  shows "keyed (foldl dedupStep kvs ms)"
  using assms by (induction ms arbitrary: kvs) (simp_all add: keyed_dedupStep)

lemma foldl_dedupStep_fresh:
  assumes "distinct (map fst acc @ map dedupKey ms)"
  shows "foldl dedupStep acc ms = acc @ map (\<lambda>m. (dedupKey m, m)) ms"
  using assms
proof (induction ms arbitrary: acc)
  case Nil
  show ?case by simp
next
  case (Cons m ms)
  have "dedupKey m \<notin> fst ` set acc"
    using Cons.prems by auto
  then have step: "dedupStep acc m = acc @ [(dedupKey m, m)]"
    by (simp add: dedupStep_def map_of_eq_None_iff [THEN iffD2])
  have "distinct (map fst (acc @ [(dedupKey m, m)]) @ map dedupKey ms)"
    using Cons.prems by auto
  from Cons.IH [OF this] show ?case
    by (simp add: step)
qed

lemma deduplicate_distinct_keys: "distinct (map dedupKey (deduplicate ms))"
proof -
  have k: "keyed (foldl dedupStep [] ms)"
    by (rule keyed_foldl) (simp add: keyed_def)
  then have eq: "map (dedupKey \<circ> snd) (foldl dedupStep [] ms) = map fst (foldl dedupStep [] ms)"
    by (auto simp: keyed_def list_all_iff)
  have "distinct (map fst (foldl dedupStep [] ms))"
    using k by (simp add: keyed_def)
  then have "distinct (map (dedupKey \<circ> snd) (foldl dedupStep [] ms))"
    by (simp only: eq)
  then show ?thesis
    by (simp only: deduplicate_def map_map)
qed

lemma deduplicate_id:
  assumes "distinct (map dedupKey ms)"
  shows "deduplicate ms = ms"
  using foldl_dedupStep_fresh [of "[]" ms] assms
  by (simp add: deduplicate_def comp_def)

text \<open>
  C9. Deduplicating the output of the deduplication step changes nothing, and neither
  does deduplicating the final, sorted list of matches: the result is the same list, so
  the same set of matches.
\<close>

theorem deduplicate_idempotent:
  "deduplicate (deduplicate ms) = deduplicate ms
   \<and> deduplicate (sortByConfidence (deduplicate ms)) = sortByConfidence (deduplicate ms)
   \<and> set (deduplicate (sortByConfidence (deduplicate ms))) = set (deduplicate ms)"
proof -
  have d: "distinct (map dedupKey (deduplicate ms))"
    by (rule deduplicate_distinct_keys)
  then have "distinct (map dedupKey (sortByConfidence (deduplicate ms)))"
    by (simp add: sortByConfidence_def distinct_map_sort_key)
  then have "deduplicate (sortByConfidence (deduplicate ms)) = sortByConfidence (deduplicate ms)"
    by (rule deduplicate_id)
  then show ?thesis
    using d by (simp add: deduplicate_id sortByConfidence_def)
qed

theorem deduplicate_idempotent_witness:
  "deduplicate (deduplicate
     [\<lparr>m_productId = ''1'', m_title = Some ''Nike  Air!'', m_brand = ''Nike'', m_price = ''$90'',
       m_link = ''/a'', m_image = ''/a.png'', m_elementInfo = (''ARTICLE'', ''card'', 0),
       m_confidence = 0.5, m_avgConfidence = 0.5, m_reason = ''r'', m_retrievalScore = 0.5\<rparr>,
      \<lparr>m_productId = ''2'', m_title = Some ''nike air'', m_brand = ''Nike'', m_price = ''$90'',
       m_link = ''/b'', m_image = ''/b.png'', m_elementInfo = (''ARTICLE'', ''card'', 1),
       m_confidence = 0.75, m_avgConfidence = 0.5, m_reason = ''r'', m_retrievalScore = 0.75\<rparr>])
   = [\<lparr>m_productId = ''2'', m_title = Some ''nike air'', m_brand = ''Nike'', m_price = ''$90'',
       m_link = ''/b'', m_image = ''/b.png'', m_elementInfo = (''ARTICLE'', ''card'', 1),
       m_confidence = 0.75, m_avgConfidence = 0.5, m_reason = ''r'', m_retrievalScore = 0.75\<rparr>]"
proof -
  have "deduplicate
     [\<lparr>m_productId = ''1'', m_title = Some ''Nike  Air!'', m_brand = ''Nike'', m_price = ''$90'',
       m_link = ''/a'', m_image = ''/a.png'', m_elementInfo = (''ARTICLE'', ''card'', 0),
       m_confidence = 0.5, m_avgConfidence = 0.5, m_reason = ''r'', m_retrievalScore = 0.5\<rparr>,
      \<lparr>m_productId = ''2'', m_title = Some ''nike air'', m_brand = ''Nike'', m_price = ''$90'',
       m_link = ''/b'', m_image = ''/b.png'', m_elementInfo = (''ARTICLE'', ''card'', 1),
       m_confidence = 0.75, m_avgConfidence = 0.5, m_reason = ''r'', m_retrievalScore = 0.75\<rparr>]
   = [\<lparr>m_productId = ''2'', m_title = Some ''nike air'', m_brand = ''Nike'', m_price = ''$90'',
       m_link = ''/b'', m_image = ''/b.png'', m_elementInfo = (''ARTICLE'', ''card'', 1),
       m_confidence = 0.75, m_avgConfidence = 0.5, m_reason = ''r'', m_retrievalScore = 0.75\<rparr>]"
    by code_simp
  then show ?thesis
    using deduplicate_idempotent
     [of "[\<lparr>m_productId = ''1'', m_title = Some ''Nike  Air!'', m_brand = ''Nike'', m_price = ''$90'',
       m_link = ''/a'', m_image = ''/a.png'', m_elementInfo = (''ARTICLE'', ''card'', 0),
       m_confidence = 0.5, m_avgConfidence = 0.5, m_reason = ''r'', m_retrievalScore = 0.5\<rparr>,
      \<lparr>m_productId = ''2'', m_title = Some ''nike air'', m_brand = ''Nike'', m_price = ''$90'',
       m_link = ''/b'', m_image = ''/b.png'', m_elementInfo = (''ARTICLE'', ''card'', 1),
       m_confidence = 0.75, m_avgConfidence = 0.5, m_reason = ''r'', m_retrievalScore = 0.75\<rparr>]"]
    by simp
qed

text \<open>
  C2. \<open>generateWithRAG\<close> always returns a result, never an error; and when the body of
  its \<open>try\<close> block raises an error, the result has no matches, a reasoning string that
  ends with the message of the error, and a retrieved-chunk count of 0.
\<close>

theorem generateWithRAG_never_throws:
  "(\<exists>result. generateWithRAG this query = Inr result)
   \<and> (\<forall>err. generateWithRAG_try this query = Inl err \<longrightarrow>
         generateWithRAG this query =
           Inr \<lparr>matches = [], reasoning = ''RAG generation failed: '' @ message err,
                retrievedChunks = 0\<rparr>)"
  by (cases "generateWithRAG_try this query") (simp_all add: generateWithRAG_def)

theorem generateWithRAG_never_throws_witness:
  "generateWithRAG_try
     \<lparr>rs_model = None, rs_maxRetrievedChunks = 100, rs_similarityThreshold = 0.1,
      rs_getAllChunks = Inl (Error ''The database connection is closing.''),
      rs_getProductMetadata = (\<lambda>p. Inr None)\<rparr> ''white sneakers''
     = Inl (Error ''The database connection is closing.'')
   \<and> generateWithRAG
     \<lparr>rs_model = None, rs_maxRetrievedChunks = 100, rs_similarityThreshold = 0.1,
      rs_getAllChunks = Inl (Error ''The database connection is closing.''),
      rs_getProductMetadata = (\<lambda>p. Inr None)\<rparr> ''white sneakers''
     = Inr \<lparr>matches = [],
            reasoning = ''RAG generation failed: The database connection is closing.'',
            retrievedChunks = 0\<rparr>"
proof -
  let ?sys = "\<lparr>rs_model = None, rs_maxRetrievedChunks = 100, rs_similarityThreshold = 0.1,
      rs_getAllChunks = Inl (Error ''The database connection is closing.''),
      rs_getProductMetadata = (\<lambda>p. Inr None)\<rparr>"
  have failed: "generateWithRAG_try ?sys ''white sneakers''
      = Inl (Error ''The database connection is closing.'')"
    by (simp add: generateWithRAG_try_def retrieveRelevantChunks_def)
  from generateWithRAG_never_throws [of ?sys "''white sneakers''"] failed show ?thesis
    by simp
qed
section \<open>Properties of the deterministic scorer\<close>

lemma countWhere_le: "countWhere p xs \<le> length xs"
  by (simp add: countWhere_def)

lemma ratio_nonneg: "0 \<le> real a / real b"
  by simp

lemma ratio_le_one: "a \<le> b \<Longrightarrow> real a / real b \<le> 1"
  by (cases "b = 0") (simp_all add: divide_le_eq)

lemma simpleMatchScore_range:
  "0 \<le> simpleMatchScore productLower userPrompt \<and> simpleMatchScore productLower userPrompt \<le> 1"
proof -
  define promptWords where
    "promptWords = filter (\<lambda>word. length word > 2) (splitSpace (toLowerCase userPrompt))"
  have "countWhere (\<lambda>word. js_includes productLower word) promptWords \<le> max (length promptWords) 1"
    using countWhere_le [of _ promptWords] by (simp add: le_max_iff_disj)
  then have "real (countWhere (\<lambda>word. js_includes productLower word) promptWords)
             / real (max (length promptWords) 1) \<le> 1"
    by (rule ratio_le_one)
  then show ?thesis
    by (simp add: simpleMatchScore_def Let_def promptWords_def)
qed

lemma weights_nonneg: "\<forall>(k, w)\<in>set (getAdaptiveWeights qa). 0 \<le> w"
  by (simp add: getAdaptiveWeights_def setWeight_def Let_def)

lemma combineScores_nonneg:
  assumes "\<forall>(k, v)\<in>set scores. 0 \<le> v" "\<forall>(k, w)\<in>set table. 0 \<le> w"
  shows "0 \<le> combineScores scores table"
proof -
  have look: "0 \<le> (case map_of scores key of None \<Rightarrow> 0 | Some v \<Rightarrow> v)" for key
    using assms(1) by (auto split: option.splits dest: map_of_SomeD)
  have "0 \<le> foldl (\<lambda>total (key, weight).
              total + (case map_of scores key of None \<Rightarrow> 0 | Some v \<Rightarrow> v) * weight) a table"
    if "0 \<le> a" for a
    using that assms(2)
  proof (induction table arbitrary: a)
    case Nil
    then show ?case by simp
  next
    case (Cons kw table)
    obtain key weight where kw: "kw = (key, weight)" by (cases kw)
    have "0 \<le> weight" using Cons.prems(2) by (simp add: kw)
    then have "0 \<le> a + (case map_of scores key of None \<Rightarrow> 0 | Some v \<Rightarrow> v) * weight"
      using Cons.prems(1) look [of key] by simp
    from Cons.IH [OF this] Cons.prems(2) show ?case
      by (simp add: kw)
  qed
  then show ?thesis
    by (simp add: combineScores_def)
qed

lemma subScores_nonneg:
  assumes "subScores rx productText qa = Inr scores"
  shows "\<forall>(k, v)\<in>set scores. 0 \<le> v"
proof -
  obtain exact where e: "calculateExactScore rx (toLowerCase productText) (qa_keywords qa) = Inr exact"
    using assms by (auto simp: subScores_def Let_def split: sum.splits)
  have "0 \<le> exact"
    using e by (auto simp: calculateExactScore_def split: if_splits sum.splits)
  moreover have "0 \<le> calculatePriceScore productText (qa_priceConstraints qa)"
    by (simp add: calculatePriceScore_def Let_def)
  moreover have "0 \<le> calculateSemanticSimilarity productText (qa_coreQuery qa)"
    by (simp add: calculateSemanticSimilarity_def Let_def)
  ultimately show ?thesis
    using assms e
    by (auto simp: subScores_def Let_def calculateKeywordScore_def calculateBrandScore_def
        calculateCategoryScore_def calculateColorScore_def calculateAttributeScore_def)
qed

lemma boost_nonneg: "0 \<le> calculateHighPerformingBoost hp kws"
  by (simp add: calculateHighPerformingBoost_def)

lemma try_range:
  assumes "calculateMatchScore_try rx hp productText userPrompt = Inr score"
  shows "0 \<le> score \<and> score \<le> 1"
proof -
  let ?qa = "analyzeQuery userPrompt"
  consider (simple) "score = simpleMatchScore (toLowerCase productText) userPrompt"
    | (gate) "score = 0"
    | (full) scores where "subScores rx productText ?qa = Inr scores"
        "score = min (combineScores scores (getAdaptiveWeights ?qa)
                      + calculateHighPerformingBoost hp (qa_keywords ?qa)) 1"
    using assms
    by (auto simp: calculateMatchScore_try_def Let_def split: if_splits sum.splits)
  then show ?thesis
  proof cases
    case simple
    then show ?thesis using simpleMatchScore_range by simp
  next
    case gate
    then show ?thesis by simp
  next
    case full
    have "0 \<le> combineScores scores (getAdaptiveWeights ?qa)"
      using subScores_nonneg [OF full(1)] weights_nonneg by (rule combineScores_nonneg)
    then show ?thesis
      using boost_nonneg [of hp "qa_keywords ?qa"] by (simp add: full(2))
  qed
qed

text \<open>
  C6. \<open>calculateMatchScore\<close> returns a number in \<open>[0, 1]\<close>; an error inside the \<open>try\<close>
  block yields 0; every sub-score is non-negative, and so is the boost for high-performing
  keywords. The sum of the weighted sub-scores and the boost is cut at 1 by \<open>Math.min\<close>.
\<close>

theorem calculateMatchScore_range:
  "0 \<le> calculateMatchScore rx hp productText userPrompt
   \<and> calculateMatchScore rx hp productText userPrompt \<le> 1
   \<and> (\<forall>err. calculateMatchScore_try rx hp productText userPrompt = Inl err \<longrightarrow>
          calculateMatchScore rx hp productText userPrompt = 0)
   \<and> (\<forall>scores. subScores rx productText (analyzeQuery userPrompt) = Inr scores \<longrightarrow>
          (\<forall>(k, v)\<in>set scores. 0 \<le> v))
   \<and> 0 \<le> calculateHighPerformingBoost hp (qa_keywords (analyzeQuery userPrompt))"
proof (cases "calculateMatchScore_try rx hp productText userPrompt")
  case (Inl err)
  then show ?thesis
    using subScores_nonneg boost_nonneg by (simp add: calculateMatchScore_def)
next
  case (Inr score)
  then show ?thesis
    using try_range [OF Inr] subScores_nonneg boost_nonneg by (simp add: calculateMatchScore_def)
qed

text \<open>
  C1. When the analysis of the query extracts at least one colour and none of the
  extracted colours occurs as a whole word in the product text, \<open>calculateMatchScore\<close>
  returns 0, whatever the keywords, the engine's answers and the high-performing keywords.
\<close>

theorem calculateMatchScore_color_gate:
  assumes "qa_colors (analyzeQuery userPrompt) \<noteq> []"
    and "\<forall>color\<in>set (qa_colors (analyzeQuery userPrompt)). \<not> testWord color productText"
  shows "calculateMatchScore rx hp productText userPrompt = 0"
proof -
  have "\<not> list_ex (\<lambda>color. testWord color productText) (qa_colors (analyzeQuery userPrompt))"
    using assms(2) by (simp add: list_ex_iff)
  then have "\<not> checkCoreRequirements productText (analyzeQuery userPrompt)"
    using assms(1) by (simp add: checkCoreRequirements_def Let_def)
  then show ?thesis
    using assms(1) by (simp add: calculateMatchScore_def calculateMatchScore_try_def Let_def)
qed


theorem calculateMatchScore_color_gate_witness:
  "qa_colors (analyzeQuery ''white sneakers'') = [''white'']
   \<and> \<not> testWord ''white'' ''PULL&BEAR - Sneaker low - grey''
   \<and> calculateMatchScore (\<lambda>w s. None) [] ''PULL&BEAR - Sneaker low - grey'' ''white sneakers'' = 0"
proof -
  have c: "qa_colors (analyzeQuery ''white sneakers'') = [''white'']"
    by code_simp
  have t: "\<not> testWord ''white'' ''PULL&BEAR - Sneaker low - grey''"
    by code_simp
  from calculateMatchScore_color_gate
    [of "''white sneakers''" "''PULL&BEAR - Sneaker low - grey''" "\<lambda>w s. None" "[]"] c t
  show ?thesis
    by simp
qed

theorem calculateMatchScore_range_witness:
  "calculateMatchScore_try (\<lambda>w s. None) [] ''C++ book'' ''c++ book''
     = Inl (Error ''Invalid regular expression'')
   \<and> calculateMatchScore (\<lambda>w s. None) [] ''C++ book'' ''c++ book'' = 0
   \<and> calculateMatchScore_try (\<lambda>w s. None) [''sneakers''] ''White Nike sneakers $80''
         ''white nike sneakers under $100'' = Inr 1
   \<and> 0 \<le> calculateMatchScore (\<lambda>w s. None) [''sneakers''] ''White Nike sneakers $80''
         ''white nike sneakers under $100''
   \<and> calculateMatchScore (\<lambda>w s. None) [''sneakers''] ''White Nike sneakers $80''
         ''white nike sneakers under $100'' \<le> 1"
proof -
  have e: "calculateMatchScore_try (\<lambda>w s. None) [] ''C++ book'' ''c++ book''
     = Inl (Error ''Invalid regular expression'')"
    by code_simp
  have f: "calculateMatchScore_try (\<lambda>w s. None) [''sneakers''] ''White Nike sneakers $80''
         ''white nike sneakers under $100'' = Inr 1"
    by code_simp
  from calculateMatchScore_range [of "\<lambda>w s. None" "[]" "''C++ book''" "''c++ book''"]
    calculateMatchScore_range [of "\<lambda>w s. None" "[''sneakers'']" "''White Nike sneakers $80''"
      "''white nike sneakers under $100''"] e f
  show ?thesis
    by simp
qed

text \<open>
  C8 at the prompt \<open>over 50 and under 100\<close>: the pattern for
  \<open>above|over|more than|min|minimum\<close> matches \<open>over 50\<close>, and the constraint pushed for that
  match has the type \<open>max\<close>, because the type is decided by whether the whole prompt
  includes \<open>under\<close>, \<open>below\<close>, \<open>less\<close> or \<open>max\<close>.
\<close>

theorem extractPriceConstraints_mixed_prompt:
  "execAll minPattern ''over 50 and under 100'' = [(None, Some ''50'')]
   \<and> extractPriceConstraints ''over 50 and under 100''
       = [\<lparr>pcn_type = Max, pcn_value = 100, pcn_currency = Currency ''100''\<rparr>,
          \<lparr>pcn_type = Max, pcn_value = 50, pcn_currency = Currency ''50''\<rparr>]
   \<and> qa_priceConstraints (analyzeQuery ''Shoes over 50 and under 100'')
       = [\<lparr>pcn_type = Max, pcn_value = 100, pcn_currency = Currency ''100''\<rparr>,
          \<lparr>pcn_type = Max, pcn_value = 50, pcn_currency = Currency ''50''\<rparr>]"
  by code_simp

end
